theory Spec2Isabelle
  imports Complex_Main "HOL-Library.Word"
begin

section \<open>JavaScript values\<close>

text \<open>
  A JavaScript string is a sequence of UTF-16 code units: \<^verbatim>\<open>text.length\<close> counts code
  units and a regular expression without the \<^verbatim>\<open>u\<close> flag matches code units. \<open>str\<close>
  embeds an ASCII literal of the source.
\<close>

type_synonym jstring = "16 word list"

definition str :: "string \<Rightarrow> jstring" where
  "str s = map (\<lambda>c. of_nat (of_char c)) s"

text \<open>
  The values \<^verbatim>\<open>JSON.parse\<close> returns. A number is a rational: the doubles of the source are
  read as the exact numbers they stand for (token counts and prices are small decimals),
  so \<^verbatim>\<open>NaN\<close> and the infinities are not values of this type. An object is the list of its
  own properties; a property that is absent reads as \<^verbatim>\<open>undefined\<close>, modelled by \<open>None\<close>.
\<close>

datatype json =
    JNull
  | JBool bool
  | JNum rat
  | JStr jstring
  | JArr "json list"
  | JObj "(jstring \<times> json) list"

section \<open>The canonical request\<close>

text \<open>
  The body of \<^verbatim>\<open>/v1/chat/completions\<close>, typed as the canonical request: a message has a
  role (any string) and a content that is a string, an array of typed parts, or null.
  \<open>contents\<close> is the Gemini-shaped field that \<^verbatim>\<open>estimateInputTokens\<close> also reads.
  An empty \<open>model\<close> stands for a missing one (both are falsy).
\<close>

datatype part = Part (ptype: jstring) (ptext: "jstring option")

datatype content = CText jstring | CParts "part list" | CNull

record message =
  role :: jstring
  content :: content

datatype stop = StopOne jstring | StopMany "jstring list"

record chat_request =
  model :: jstring
  messages :: "message list option"
  contents :: "part list option list option"
  stream :: bool
  max_tokens :: "rat option"
  temperature :: "rat option"
  top_p :: "rat option"
  stop :: "stop option"

section \<open>Token estimator (src/providers/adapter.js)\<close>

text \<open>
  \<^verbatim>\<open>
  export function estimateTokens(text) {
    if (!text) return 0;
    const chineseChars = (text.match(/[U+4E00-U+9FFF]/g) || []).length;
    const otherChars = text.length - chineseChars;
    return Math.ceil(chineseChars / 1.5 + otherChars / 4);
  }
  \<close>
\<close>

definition isCJK :: "16 word \<Rightarrow> bool" where
  "isCJK c = (0x4e00 \<le> c \<and> c \<le> 0x9fff)"

definition estimateTokens :: "jstring \<Rightarrow> nat" where
  "estimateTokens text =
     (if text = [] then 0
      else let chineseChars = length (filter isCJK text);
               otherChars = length text - chineseChars
           in nat \<lceil>(of_nat chineseChars / (3 / 2) + of_nat otherChars / 4 :: rat)\<rceil>)"

text \<open>\<^verbatim>\<open>estimateTokens(part.text)\<close> on a part whose text is absent returns 0 (\<^verbatim>\<open>!text\<close>).\<close>

definition estimateTokens_opt :: "jstring option \<Rightarrow> nat" where
  "estimateTokens_opt t = (case t of None \<Rightarrow> 0 | Some text \<Rightarrow> estimateTokens text)"

text \<open>
  \<^verbatim>\<open>estimateInputTokens\<close>: three nested \<^verbatim>\<open>for\<close> loops adding to \<^verbatim>\<open>total\<close>; each loop
  is a recursion over the array with \<open>tot\<close> as the accumulator.
\<close>

fun estimate_parts :: "part list \<Rightarrow> nat \<Rightarrow> nat" where
  "estimate_parts [] tot = tot"
| "estimate_parts (p # ps) tot =
     estimate_parts ps
       (if ptype p = str ''text'' then tot + estimateTokens_opt (ptext p) else tot)"

fun estimate_messages :: "message list \<Rightarrow> nat \<Rightarrow> nat" where
  "estimate_messages [] tot = tot"
| "estimate_messages (msg # msgs) tot =
     estimate_messages msgs
       (case content msg of
          CText s \<Rightarrow> tot + estimateTokens s
        | CParts ps \<Rightarrow> estimate_parts ps tot
        | CNull \<Rightarrow> tot)"

fun estimate_gemini_parts :: "part list \<Rightarrow> nat \<Rightarrow> nat" where
  "estimate_gemini_parts [] tot = tot"
| "estimate_gemini_parts (p # ps) tot =
     estimate_gemini_parts ps
       (case ptext p of
          None \<Rightarrow> tot
        | Some t \<Rightarrow> if t \<noteq> [] then tot + estimateTokens t else tot)"

fun estimate_contents :: "part list option list \<Rightarrow> nat \<Rightarrow> nat" where
  "estimate_contents [] tot = tot"
| "estimate_contents (c # cs) tot =
     estimate_contents cs
       (estimate_gemini_parts (case c of None \<Rightarrow> [] | Some ps \<Rightarrow> ps) tot)"

definition estimateInputTokens :: "chat_request \<Rightarrow> nat" where
  "estimateInputTokens body =
     (let tot = 0;
          tot = (case messages body of None \<Rightarrow> tot
                   | Some msgs \<Rightarrow> estimate_messages msgs tot);
          tot = (case contents body of None \<Rightarrow> tot
                   | Some cs \<Rightarrow> estimate_contents cs tot)
      in tot)"

text \<open>
  The text segments \<^verbatim>\<open>estimateInputTokens\<close> visits, in the order it visits them: string
  contents, the text of parts typed \<^verbatim>\<open>text\<close> (an absent text is the empty segment), and
  the texts of the Gemini parts.
\<close>

definition part_segments :: "part list \<Rightarrow> jstring list" where
  "part_segments ps =
     map (\<lambda>p. case ptext p of None \<Rightarrow> [] | Some t \<Rightarrow> t)
       (filter (\<lambda>p. ptype p = str ''text'') ps)"

definition message_segments :: "message \<Rightarrow> jstring list" where
  "message_segments msg =
     (case content msg of CText s \<Rightarrow> [s] | CParts ps \<Rightarrow> part_segments ps | CNull \<Rightarrow> [])"

definition gemini_segments :: "part list option \<Rightarrow> jstring list" where
  "gemini_segments c =
     concat (map (\<lambda>p. case ptext p of None \<Rightarrow> [] | Some t \<Rightarrow> [t])
       (case c of None \<Rightarrow> [] | Some ps \<Rightarrow> ps))"

definition text_segments :: "chat_request \<Rightarrow> jstring list" where
  "text_segments body =
     (case messages body of None \<Rightarrow> [] | Some msgs \<Rightarrow> concat (map message_segments msgs))
     @ (case contents body of None \<Rightarrow> [] | Some cs \<Rightarrow> concat (map gemini_segments cs))"

text \<open>
  The estimate as the specification words it: the per-character costs of all segments
  are summed as fractions and the sum is rounded up once.
\<close>

definition char_cost :: "jstring \<Rightarrow> rat" where
  "char_cost text =
     of_nat (length (filter isCJK text)) / (3 / 2)
     + of_nat (length text - length (filter isCJK text)) / 4"

definition single_ceiling_estimate :: "chat_request \<Rightarrow> nat" where
  "single_ceiling_estimate body = nat \<lceil>sum_list (map char_cost (text_segments body))\<rceil>"

text \<open>White space as \<^verbatim>\<open>String.prototype.trim\<close> and the specification's "whitespace" mean it.\<close>

definition isWhiteSpace :: "16 word \<Rightarrow> bool" where
  "isWhiteSpace c =
     (c = 0x9 \<or> c = 0xA \<or> c = 0xB \<or> c = 0xC \<or> c = 0xD \<or> c = 0x20 \<or> c = 0xA0
      \<or> c = 0x1680 \<or> (0x2000 \<le> c \<and> c \<le> 0x200A) \<or> c = 0x2028 \<or> c = 0x2029
      \<or> c = 0x202F \<or> c = 0x205F \<or> c = 0x3000 \<or> c = 0xFEFF)"


section \<open>Billing (functions/v1/index.js)\<close>

text \<open>
  The model record of the configuration store, as \<^verbatim>\<open>handleSaveModel\<close> writes it. A price
  that is absent reads as 0 (\<^verbatim>\<open>model.input_price || 0\<close>). Prices, token counts and money
  are rationals, as the numbers of JSON are.
\<close>

record model_config =
  model_id :: jstring
  channel_id :: jstring
  upstream_model :: "jstring option"
  input_price :: "rat option"
  output_price :: "rat option"
  enabled :: bool

definition or_zero :: "rat option \<Rightarrow> rat" where
  "or_zero p = (case p of None \<Rightarrow> 0 | Some x \<Rightarrow> x)"

text \<open>
  \<^verbatim>\<open>
  function calculateCost(model, inputTokens, outputTokens) {
    const inputCost = (inputTokens / 1000) * (model.input_price || 0);
    const outputCost = (outputTokens / 1000) * (model.output_price || 0);
    return inputCost + outputCost;
  }
  \<close>
\<close>

definition calculateCost :: "model_config \<Rightarrow> rat \<Rightarrow> rat \<Rightarrow> rat" where
  "calculateCost m inputTokens outputTokens =
     (let inputCost = (inputTokens / 1000) * or_zero (input_price m);
          outputCost = (outputTokens / 1000) * or_zero (output_price m)
      in inputCost + outputCost)"

section \<open>The JavaScript runtime\<close>

text \<open>
  The built-ins of the runtime that the source calls and that are not part of this
  repository are taken as parameters, one record for a run: \<^verbatim>\<open>JSON.parse\<close> (\<open>None\<close> is
  a SyntaxError), the clock \<^verbatim>\<open>Date.now()\<close> in milliseconds (one reading for the whole
  run), the day \<^verbatim>\<open>new Date().toISOString().slice(0, 10).replace(/-/g, '')\<close>, the string of
  a number, and \<^verbatim>\<open>String.prototype.toLowerCase\<close>. Every theorem that
  mentions a runtime holds for each such record.
\<close>

record js_runtime =
  JSON_parse :: "jstring \<Rightarrow> json option"
  Date_now :: nat
  today :: jstring
  Number_toString :: "rat \<Rightarrow> jstring"
  toLowerCase :: "jstring \<Rightarrow> jstring"

datatype js_error = TypeError | SyntaxError | Error

text \<open>
  A JavaScript value read from vendor data is a \<open>json option\<close>, \<open>None\<close> being
  \<^verbatim>\<open>undefined\<close>. \<open>get v k\<close> is \<^verbatim>\<open>v.k\<close> for a \<open>v\<close> that is neither null nor undefined (only
  an object has the properties read here); \<open>opt_get v k\<close> is \<^verbatim>\<open>v?.k\<close>; \<open>idx0 v\<close> is
  \<^verbatim>\<open>v?.[0]\<close>; \<open>truthy\<close> is the test of \<^verbatim>\<open>if\<close>, \<^verbatim>\<open>&&\<close>, \<^verbatim>\<open>||\<close> and \<^verbatim>\<open>?:\<close>.
\<close>

definition get :: "json \<Rightarrow> jstring \<Rightarrow> json option" where
  "get v k = (case v of JObj kvs \<Rightarrow> map_of kvs k | _ \<Rightarrow> None)"

definition opt_get :: "json option \<Rightarrow> jstring \<Rightarrow> json option" where
  "opt_get v k = (case v of None \<Rightarrow> None | Some JNull \<Rightarrow> None | Some x \<Rightarrow> get x k)"

definition idx0 :: "json option \<Rightarrow> json option" where
  "idx0 v =
     (case v of
        Some (JArr (x # xs)) \<Rightarrow> Some x
      | Some (JStr (c # cs)) \<Rightarrow> Some (JStr [c])
      | Some (JObj kvs) \<Rightarrow> map_of kvs (str ''0'')
      | _ \<Rightarrow> None)"

definition truthy :: "json option \<Rightarrow> bool" where
  "truthy v =
     (case v of
        None \<Rightarrow> False
      | Some JNull \<Rightarrow> False
      | Some (JBool b) \<Rightarrow> b
      | Some (JNum x) \<Rightarrow> x \<noteq> 0
      | Some (JStr s) \<Rightarrow> s \<noteq> []
      | Some _ \<Rightarrow> True)"

text \<open>\<^verbatim>\<open>a || b\<close> for a default \<open>b\<close> that is defined.\<close>

definition or_else :: "json option \<Rightarrow> json \<Rightarrow> json" where
  "or_else a b = (case a of Some x \<Rightarrow> if truthy a then x else b | None \<Rightarrow> b)"

text \<open>An object literal: a property whose value is \<^verbatim>\<open>undefined\<close> is not serialised.\<close>

definition obj :: "(jstring \<times> json option) list \<Rightarrow> json" where
  "obj props =
     JObj (concat (map (\<lambda>(k, v). case v of None \<Rightarrow> [] | Some x \<Rightarrow> [(k, x)]) props))"

fun join_with :: "jstring \<Rightarrow> jstring list \<Rightarrow> jstring" where
  "join_with sep [] = []"
| "join_with sep [x] = x"
| "join_with sep (x # y # ys) = x @ sep @ join_with sep (y # ys)"

text \<open>
  \<^verbatim>\<open>String(v)\<close>: an array is its elements joined by commas, null elements being empty,
  and an object is \<^verbatim>\<open>[object Object]\<close>.
\<close>

fun ToString :: "js_runtime \<Rightarrow> json \<Rightarrow> jstring" where
  "ToString rt JNull = str ''null''"
| "ToString rt (JBool b) = (if b then str ''true'' else str ''false'')"
| "ToString rt (JNum x) = Number_toString rt x"
| "ToString rt (JStr s) = s"
| "ToString rt (JArr xs) =
     join_with (str '','') (map (\<lambda>x. if x = JNull then [] else ToString rt x) xs)"
| "ToString rt (JObj kvs) = str ''[object Object]''"

text \<open>
  \<^verbatim>\<open>Array.prototype.join('')\<close> of the \<^verbatim>\<open>text\<close> properties: undefined and null are empty.
\<close>

definition join_texts :: "js_runtime \<Rightarrow> json option list \<Rightarrow> jstring" where
  "join_texts rt vs =
     concat (map (\<lambda>v. case v of None \<Rightarrow> [] | Some JNull \<Rightarrow> [] | Some x \<Rightarrow> ToString rt x) vs)"

text \<open>
  \<^verbatim>\<open>a + b\<close> on operands that are not undefined: arrays and objects become strings; with
  a string operand the strings are concatenated, otherwise the numbers are added (null
  is 0, true is 1).
\<close>

definition ToPrimitive :: "js_runtime \<Rightarrow> json \<Rightarrow> json" where
  "ToPrimitive rt v =
     (case v of JArr xs \<Rightarrow> JStr (ToString rt v) | JObj kvs \<Rightarrow> JStr (ToString rt v) | _ \<Rightarrow> v)"

definition is_JStr :: "json \<Rightarrow> bool" where
  "is_JStr v = (case v of JStr s \<Rightarrow> True | _ \<Rightarrow> False)"

definition ToNumber :: "json \<Rightarrow> rat" where
  "ToNumber v = (case v of JNum x \<Rightarrow> x | JBool b \<Rightarrow> (if b then 1 else 0) | _ \<Rightarrow> 0)"

definition js_plus :: "js_runtime \<Rightarrow> json \<Rightarrow> json \<Rightarrow> json" where
  "js_plus rt a b =
     (let pa = ToPrimitive rt a; pb = ToPrimitive rt b
      in if is_JStr pa \<or> is_JStr pb then JStr (ToString rt pa @ ToString rt pb)
         else JNum (ToNumber pa + ToNumber pb))"

text \<open>The decimal digits of a natural number, for \<^verbatim>\<open>`gemini-${Date.now()}`\<close>.\<close>

fun decimal :: "nat \<Rightarrow> jstring" where
  "decimal n =
     (if n < 10 then [of_nat (48 + n)] else decimal (n div 10) @ [of_nat (48 + n mod 10)])"

section \<open>Format adapters (src/providers/adapter.js)\<close>

subsection \<open>Canonical request to vendor request\<close>

text \<open>
  \<^verbatim>\<open>String(msg.content)\<close>, appended to the system text: a string is itself, an array of
  parts is \<^verbatim>\<open>[object Object]\<close> per part joined by commas, null is \<^verbatim>\<open>null\<close>.
\<close>

definition content_string :: "content \<Rightarrow> jstring" where
  "content_string c =
     (case c of
        CText s \<Rightarrow> s
      | CParts ps \<Rightarrow> join_with (str '','') (map (\<lambda>p. str ''[object Object]'') ps)
      | CNull \<Rightarrow> str ''null'')"

record anthropic_request =
  a_model :: jstring
  a_max_tokens :: rat
  a_system :: "jstring option"
  a_messages :: "message list"
  a_stream :: bool
  a_temperature :: "rat option"
  a_top_p :: "rat option"
  a_stop_sequences :: "jstring list option"

text \<open>
  \<^verbatim>\<open>
  for (const msg of body.messages || []) {
    if (msg.role === 'system') {
      system += (system ? '\n' : '') + msg.content;
    } else {
      messages.push({
        role: msg.role === 'assistant' ? 'assistant' : 'user',
        content: msg.content,
      });
    }
  }
  \<close>
  The loop state is the pair of the turn list and the system text.
\<close>

fun toAnthropic_loop :: "message list \<Rightarrow> message list \<times> jstring \<Rightarrow> message list \<times> jstring" where
  "toAnthropic_loop [] acc = acc"
| "toAnthropic_loop (msg # msgs) (turns, system) =
     toAnthropic_loop msgs
       (if role msg = str ''system''
        then (turns, system @ (if system \<noteq> [] then [0xA] else []) @ content_string (content msg))
        else (turns @ [\<lparr>role = (if role msg = str ''assistant'' then str ''assistant''
                                  else str ''user''),
                         content = content msg\<rparr>], system))"

definition stop_sequences_of :: "stop option \<Rightarrow> jstring list option" where
  "stop_sequences_of s =
     (case s of
        None \<Rightarrow> None
      | Some (StopOne x) \<Rightarrow> if x \<noteq> [] then Some [x] else None
      | Some (StopMany xs) \<Rightarrow> Some xs)"

definition toAnthropic :: "chat_request \<Rightarrow> anthropic_request" where
  "toAnthropic body =
     (let (turns, system) =
            toAnthropic_loop (case messages body of None \<Rightarrow> [] | Some ms \<Rightarrow> ms) ([], [])
      in \<lparr>a_model = model body,
          a_max_tokens = (case max_tokens body of None \<Rightarrow> 4096
                          | Some n \<Rightarrow> if n \<noteq> 0 then n else 4096),
          a_system = (if system \<noteq> [] then Some system else None),
          a_messages = turns,
          a_stream = stream body,
          a_temperature = temperature body,
          a_top_p = top_p body,
          a_stop_sequences = stop_sequences_of (stop body)\<rparr>)"

text \<open>
  A Gemini turn is a role and its \<^verbatim>\<open>parts\<close>, here the list of the \<^verbatim>\<open>text\<close> values of
  the parts (\<^verbatim>\<open>toGemini\<close> always builds one part, \<^verbatim>\<open>{ text: msg.content }\<close>).
\<close>

record gemini_turn =
  g_role :: jstring
  g_parts :: "content list"

record gemini_request =
  g_contents :: "gemini_turn list"
  g_systemInstruction :: "jstring option"
  g_maxOutputTokens :: "rat option"
  g_temperature :: "rat option"
  g_topP :: "rat option"
  g_stopSequences :: "jstring list option"

fun toGemini_loop :: "message list \<Rightarrow> gemini_turn list \<times> jstring \<Rightarrow> gemini_turn list \<times> jstring" where
  "toGemini_loop [] acc = acc"
| "toGemini_loop (msg # msgs) (turns, systemInstruction) =
     toGemini_loop msgs
       (if role msg = str ''system''
        then (turns, systemInstruction @ (if systemInstruction \<noteq> [] then [0xA] else [])
                      @ content_string (content msg))
        else (turns @ [\<lparr>g_role = (if role msg = str ''assistant'' then str ''model''
                                    else str ''user''),
                         g_parts = [content msg]\<rparr>], systemInstruction))"

definition toGemini :: "chat_request \<Rightarrow> gemini_request" where
  "toGemini body =
     (let (turns, systemInstruction) =
            toGemini_loop (case messages body of None \<Rightarrow> [] | Some ms \<Rightarrow> ms) ([], [])
      in \<lparr>g_contents = turns,
          g_systemInstruction =
            (if systemInstruction \<noteq> [] then Some systemInstruction else None),
          g_maxOutputTokens = max_tokens body,
          g_temperature = temperature body,
          g_topP = top_p body,
          g_stopSequences = stop_sequences_of (stop body)\<rparr>)"

subsection \<open>Vendor response to canonical response\<close>

text \<open>
  \<^verbatim>\<open>response.content?.map(c => c.text).join('') || ''\<close>: an absent or null array gives
  the empty string; a value that is not an array has no \<^verbatim>\<open>map\<close> method and a null
  element has no properties, both raise a TypeError.
\<close>

definition map_text_join :: "js_runtime \<Rightarrow> json option \<Rightarrow> js_error + jstring" where
  "map_text_join rt v =
     (case v of
        None \<Rightarrow> Inr []
      | Some JNull \<Rightarrow> Inr []
      | Some (JArr xs) \<Rightarrow>
          if JNull \<in> set xs then Inl TypeError
          else Inr (join_texts rt (map (\<lambda>c. get c (str ''text'')) xs))
      | Some _ \<Rightarrow> Inl TypeError)"

definition anthropic_finish_reason :: "json \<Rightarrow> json option" where
  "anthropic_finish_reason response =
     (if get response (str ''stop_reason'') = Some (JStr (str ''end_turn''))
      then Some (JStr (str ''stop''))
      else get response (str ''stop_reason''))"

definition anthropicToOpenAI :: "js_runtime \<Rightarrow> json \<Rightarrow> js_error + json" where
  "anthropicToOpenAI rt response =
     (if response = JNull then Inl TypeError
      else case map_text_join rt (get response (str ''content'')) of
        Inl e \<Rightarrow> Inl e
      | Inr text \<Rightarrow>
          let usage_v = get response (str ''usage'');
              input_tokens = or_else (opt_get usage_v (str ''input_tokens'')) (JNum 0);
              output_tokens = or_else (opt_get usage_v (str ''output_tokens'')) (JNum 0)
          in Inr (obj
            [(str ''id'', get response (str ''id'')),
             (str ''object'', Some (JStr (str ''chat.completion''))),
             (str ''created'', Some (JNum (of_nat (Date_now rt div 1000)))),
             (str ''model'', get response (str ''model'')),
             (str ''choices'', Some (JArr [obj
                [(str ''index'', Some (JNum 0)),
                 (str ''message'', Some (obj
                    [(str ''role'', Some (JStr (str ''assistant''))),
                     (str ''content'', Some (JStr text))])),
                 (str ''finish_reason'', anthropic_finish_reason response)]])),
             (str ''usage'', Some (obj
                [(str ''prompt_tokens'', Some input_tokens),
                 (str ''completion_tokens'', Some output_tokens),
                 (str ''total_tokens'', Some (js_plus rt input_tokens output_tokens))]))]))"

text \<open>
  \<^verbatim>\<open>candidate?.finishReason === 'STOP' ? 'stop' : candidate?.finishReason?.toLowerCase()\<close>:
  only a string has the method; an absent or null reason stays undefined.
\<close>

definition gemini_finish_reason :: "js_runtime \<Rightarrow> json option \<Rightarrow> js_error + json option" where
  "gemini_finish_reason rt candidate =
     (let finishReason = opt_get candidate (str ''finishReason'')
      in if finishReason = Some (JStr (str ''STOP'')) then Inr (Some (JStr (str ''stop'')))
         else case finishReason of
                None \<Rightarrow> Inr None
              | Some JNull \<Rightarrow> Inr None
              | Some (JStr s) \<Rightarrow> Inr (Some (JStr (toLowerCase rt s)))
              | Some _ \<Rightarrow> Inl TypeError)"

definition geminiToOpenAI :: "js_runtime \<Rightarrow> json \<Rightarrow> js_error + json" where
  "geminiToOpenAI rt response =
     (if response = JNull then Inl TypeError
      else
        let candidate = idx0 (get response (str ''candidates''))
        in case map_text_join rt (opt_get (opt_get candidate (str ''content'')) (str ''parts'')) of
          Inl e \<Rightarrow> Inl e
        | Inr text \<Rightarrow>
           (case gemini_finish_reason rt candidate of
              Inl e \<Rightarrow> Inl e
            | Inr finish_reason \<Rightarrow>
                let usageMetadata = get response (str ''usageMetadata'')
                in Inr (obj
                  [(str ''id'', Some (JStr (str ''gemini-'' @ decimal (Date_now rt)))),
                   (str ''object'', Some (JStr (str ''chat.completion''))),
                   (str ''created'', Some (JNum (of_nat (Date_now rt div 1000)))),
                   (str ''model'',
                      Some (or_else (get response (str ''modelVersion'')) (JStr (str ''gemini'')))),
                   (str ''choices'', Some (JArr [obj
                      [(str ''index'', Some (JNum 0)),
                       (str ''message'', Some (obj
                          [(str ''role'', Some (JStr (str ''assistant''))),
                           (str ''content'', Some (JStr text))])),
                       (str ''finish_reason'', finish_reason)]])),
                   (str ''usage'', Some (obj
                      [(str ''prompt_tokens'',
                          Some (or_else (opt_get usageMetadata (str ''promptTokenCount'')) (JNum 0))),
                       (str ''completion_tokens'',
                          Some (or_else (opt_get usageMetadata (str ''candidatesTokenCount'')) (JNum 0))),
                       (str ''total_tokens'',
                          Some (or_else (opt_get usageMetadata (str ''totalTokenCount'')) (JNum 0)))]))])))"

definition finish_reason_of :: "json \<Rightarrow> json option" where
  "finish_reason_of result =
     opt_get (idx0 (get result (str ''choices''))) (str ''finish_reason'')"

section \<open>Stream re-encoder (functions/v1/index.js, createStreamTransformer)\<close>

subsection \<open>Decoding a chunk\<close>

text \<open>
  \<^verbatim>\<open>new TextDecoder().decode(chunk)\<close>: a fresh UTF-8 decoder for every chunk, called
  without \<^verbatim>\<open>{ stream: true }\<close>, so a sequence that is cut by the end of the chunk is
  flushed as U+FFFD and the next chunk starts in the initial state. The decoder is the
  one of the Encoding standard: the state is the number of continuation bytes still
  needed, the code point so far and the bounds for the next byte; a byte outside the
  bounds ends the sequence with U+FFFD and is read again as a first byte.
\<close>

fun utf8_decode :: "nat \<times> nat \<times> 8 word \<times> 8 word \<Rightarrow> 8 word list \<Rightarrow> nat list" where
  "utf8_decode (needed, cp, lower, upper) [] = (if needed \<noteq> 0 then [0xFFFD] else [])"
| "utf8_decode (needed, cp, lower, upper) (b # bs) =
     (if needed \<noteq> 0 \<and> lower \<le> b \<and> b \<le> upper
      then (if needed = 1
            then (cp * 64 + unat b mod 64) # utf8_decode (0, 0, 0x80, 0xBF) bs
            else utf8_decode (needed - 1, cp * 64 + unat b mod 64, 0x80, 0xBF) bs)
      else (if needed \<noteq> 0 then [0xFFFD] else [])
           @ (if b \<le> 0x7F then unat b # utf8_decode (0, 0, 0x80, 0xBF) bs
              else if 0xC2 \<le> b \<and> b \<le> 0xDF
                then utf8_decode (1, unat b mod 32, 0x80, 0xBF) bs
              else if 0xE0 \<le> b \<and> b \<le> 0xEF
                then utf8_decode (2, unat b mod 16,
                       (if b = 0xE0 then 0xA0 else 0x80), (if b = 0xED then 0x9F else 0xBF)) bs
              else if 0xF0 \<le> b \<and> b \<le> 0xF4
                then utf8_decode (3, unat b mod 8,
                       (if b = 0xF0 then 0x90 else 0x80), (if b = 0xF4 then 0x8F else 0xBF)) bs
              else 0xFFFD # utf8_decode (0, 0, 0x80, 0xBF) bs))"

text \<open>A code point as UTF-16 code units; the decoder drops one leading byte order mark.\<close>

definition utf16_units :: "nat \<Rightarrow> jstring" where
  "utf16_units cp =
     (if cp < 0x10000 then [of_nat cp]
      else [of_nat (0xD800 + (cp - 0x10000) div 0x400), of_nat (0xDC00 + (cp - 0x10000) mod 0x400)])"

definition TextDecoder_decode :: "8 word list \<Rightarrow> jstring" where
  "TextDecoder_decode chunk =
     (let cps = utf8_decode (0, 0, 0x80, 0xBF) chunk;
          cps = (case cps of [] \<Rightarrow> [] | c # rest \<Rightarrow> if c = 0xFEFF then rest else cps)
      in concat (map utf16_units cps))"

subsection \<open>Lines\<close>

text \<open>\<^verbatim>\<open>buffer.split('\n')\<close>: never empty; the last element is the text after the last newline.\<close>

fun split_nl :: "jstring \<Rightarrow> jstring list" where
  "split_nl [] = [[]]"
| "split_nl (c # cs) =
     (if c = 0xA then [] # split_nl cs
      else (case split_nl cs of [] \<Rightarrow> [[c]] | l # ls \<Rightarrow> (c # l) # ls))"

definition startsWith :: "jstring \<Rightarrow> jstring \<Rightarrow> bool" where
  "startsWith s p = (take (length p) s = p)"

definition trim :: "jstring \<Rightarrow> jstring" where
  "trim s = rev (dropWhile isWhiteSpace (rev (dropWhile isWhiteSpace s)))"

subsection \<open>Running counters\<close>

text \<open>
  \<^verbatim>\<open>inputTokens\<close> and \<^verbatim>\<open>outputTokens\<close> hold numbers as long as the vendor sends
  numbers and strings where they belong. \<open>Uncounted\<close> stands for every other JavaScript
  value such a variable can come to hold (NaN after the length of a text that is no
  string or array, or a truthy usage count that is no number); the counters are not
  followed further from there.
\<close>

datatype count = Count rat | Uncounted

text \<open>\<^verbatim>\<open>v || c\<close> for a usage count \<open>v\<close> read from vendor data.\<close>

definition count_or :: "json option \<Rightarrow> count \<Rightarrow> count" where
  "count_or v c =
     (if truthy v then (case v of Some (JNum x) \<Rightarrow> Count x | _ \<Rightarrow> Uncounted) else c)"

text \<open>\<^verbatim>\<open>c += Math.ceil(text.length / 4)\<close> for a truthy \<open>text\<close>.\<close>

definition add_text_tokens :: "count \<Rightarrow> json \<Rightarrow> count" where
  "add_text_tokens c text =
     (case (c, text) of
        (Count x, JStr s) \<Rightarrow> Count (x + of_nat ((length s + 3) div 4))
      | (Count x, JArr xs) \<Rightarrow> Count (x + of_nat ((length xs + 3) div 4))
      | _ \<Rightarrow> Uncounted)"

subsection \<open>Channels and the transformer\<close>

datatype provider_type = OPENAI | ANTHROPIC | GEMINI | OtherProvider jstring

record channel_config =
  provider :: provider_type
  base_url :: "jstring option"
  api_key :: jstring
  version :: "jstring option"
  ch_enabled :: bool

text \<open>
  What \<^verbatim>\<open>controller.enqueue\<close> receives: the bytes of \<^verbatim>\<open>data: [DONE]\n\n\<close>, or of
  \<^verbatim>\<open>data: \<close> followed by \<^verbatim>\<open>JSON.stringify(transformed)\<close> and two newlines; the model keeps
  the value that is serialised.
\<close>

datatype sse = SseDone | SseData json

record transformer =
  inputTokens :: count
  outputTokens :: count
  buffer :: jstring

definition createStreamTransformer :: transformer where
  "createStreamTransformer = \<lparr>inputTokens = Count 0, outputTokens = Count 0, buffer = []\<rparr>"

definition created_now :: "js_runtime \<Rightarrow> json" where
  "created_now rt = JNum (of_nat (Date_now rt div 1000))"

definition chatcmpl_now :: "js_runtime \<Rightarrow> json" where
  "chatcmpl_now rt = JStr (str ''chatcmpl-'' @ decimal (Date_now rt))"

text \<open>
  The body of the \<^verbatim>\<open>try\<close> block for one parsed event, per provider: the new counters and
  the value of \<^verbatim>\<open>transformed\<close> (\<open>None\<close> when nothing is enqueued, which covers
  \<^verbatim>\<open>continue\<close>). Reading a property of \<^verbatim>\<open>null\<close> raises a TypeError before any counter
  changes.
\<close>

definition anthropic_event ::
  "js_runtime \<Rightarrow> model_config \<Rightarrow> transformer \<Rightarrow> json \<Rightarrow> js_error + transformer \<times> json option" where
  "anthropic_event rt m st parsed =
     (if parsed = JNull then Inl TypeError
      else let type = get parsed (str ''type'');
               delta = get parsed (str ''delta'');
               message = get parsed (str ''message'')
      in if type = Some (JStr (str ''content_block_delta''))
            \<and> truthy (opt_get delta (str ''text''))
         then Inr (st\<lparr>outputTokens :=
                        add_text_tokens (outputTokens st) (the (opt_get delta (str ''text'')))\<rparr>,
                   Some (obj
                     [(str ''id'', Some (or_else (opt_get message (str ''id'')) (chatcmpl_now rt))),
                      (str ''object'', Some (JStr (str ''chat.completion.chunk''))),
                      (str ''created'', Some (created_now rt)),
                      (str ''model'', Some (JStr (model_id m))),
                      (str ''choices'', Some (JArr [obj
                         [(str ''index'', Some (JNum 0)),
                          (str ''delta'', Some (obj [(str ''content'', opt_get delta (str ''text''))])),
                          (str ''finish_reason'', Some JNull)]]))]))
         else if type = Some (JStr (str ''message_delta''))
         then Inr ((if truthy (get parsed (str ''usage''))
                    then st\<lparr>inputTokens :=
                               count_or (opt_get (get parsed (str ''usage'')) (str ''input_tokens''))
                                 (inputTokens st),
                             outputTokens :=
                               count_or (opt_get (get parsed (str ''usage'')) (str ''output_tokens''))
                                 (outputTokens st)\<rparr>
                    else st),
                   Some (obj
                     [(str ''object'', Some (JStr (str ''chat.completion.chunk''))),
                      (str ''choices'', Some (JArr [obj
                         [(str ''index'', Some (JNum 0)),
                          (str ''delta'', Some (obj [])),
                          (str ''finish_reason'',
                             Some (if opt_get delta (str ''stop_reason'') = Some (JStr (str ''end_turn''))
                                   then JStr (str ''stop'') else JNull))]]))]))
         else if type = Some (JStr (str ''message_start'')) \<and> truthy message
         then Inr (st\<lparr>inputTokens :=
                        count_or (opt_get (opt_get message (str ''usage'')) (str ''input_tokens''))
                          (Count 0)\<rparr>,
                   Some (obj
                     [(str ''id'', opt_get message (str ''id'')),
                      (str ''object'', Some (JStr (str ''chat.completion.chunk''))),
                      (str ''created'', Some (created_now rt)),
                      (str ''model'', Some (JStr (model_id m))),
                      (str ''choices'', Some (JArr [obj
                         [(str ''index'', Some (JNum 0)),
                          (str ''delta'', Some (obj [(str ''role'', Some (JStr (str ''assistant'')))])),
                          (str ''finish_reason'', Some JNull)]]))]))
         else Inr (st, None))"

definition gemini_event ::
  "js_runtime \<Rightarrow> model_config \<Rightarrow> transformer \<Rightarrow> json \<Rightarrow> js_error + transformer \<times> json option" where
  "gemini_event rt m st parsed =
     (if parsed = JNull then Inl TypeError
      else let candidate = idx0 (get parsed (str ''candidates''));
               text = opt_get (idx0 (opt_get (opt_get candidate (str ''content'')) (str ''parts'')))
                        (str ''text'');
               st1 = (if truthy text
                      then st\<lparr>outputTokens := add_text_tokens (outputTokens st) (the text)\<rparr>
                      else st);
               transformed =
                 (if truthy text
                  then Some (obj
                     [(str ''id'', Some (chatcmpl_now rt)),
                      (str ''object'', Some (JStr (str ''chat.completion.chunk''))),
                      (str ''created'', Some (created_now rt)),
                      (str ''model'', Some (JStr (model_id m))),
                      (str ''choices'', Some (JArr [obj
                         [(str ''index'', Some (JNum 0)),
                          (str ''delta'', Some (obj [(str ''content'', text)])),
                          (str ''finish_reason'',
                             Some (if opt_get candidate (str ''finishReason'') = Some (JStr (str ''STOP''))
                                   then JStr (str ''stop'') else JNull))]]))])
                  else None);
               usageMetadata = get parsed (str ''usageMetadata'')
      in Inr ((if truthy usageMetadata
               then st1\<lparr>inputTokens :=
                           count_or (opt_get usageMetadata (str ''promptTokenCount'')) (inputTokens st1),
                         outputTokens :=
                           count_or (opt_get usageMetadata (str ''candidatesTokenCount''))
                             (outputTokens st1)\<rparr>
               else st1),
              transformed))"

definition openai_event ::
  "transformer \<Rightarrow> json \<Rightarrow> js_error + transformer \<times> json option" where
  "openai_event st parsed =
     (if parsed = JNull then Inl TypeError
      else let usage_v = get parsed (str ''usage'')
      in Inr ((if truthy usage_v
               then st\<lparr>inputTokens :=
                          count_or (opt_get usage_v (str ''prompt_tokens'')) (inputTokens st),
                        outputTokens :=
                          count_or (opt_get usage_v (str ''completion_tokens'')) (outputTokens st)\<rparr>
               else st),
              Some parsed))"

text \<open>
  One iteration of \<^verbatim>\<open>for (const line of lines)\<close>: the new counters and what is enqueued.
  A line that does not parse, or whose handling raises, is logged and skipped.
\<close>

definition process_line ::
  "js_runtime \<Rightarrow> channel_config \<Rightarrow> model_config \<Rightarrow> transformer \<Rightarrow> jstring
     \<Rightarrow> transformer \<times> sse list" where
  "process_line rt ch m st line =
     (if \<not> startsWith line (str ''data: '') then (st, [])
      else let data = trim (drop 6 line)
      in if data = str ''[DONE]'' then (st, [SseDone])
         else case JSON_parse rt data of
           None \<Rightarrow> (st, [])
         | Some parsed \<Rightarrow>
            (case (if provider ch = ANTHROPIC then anthropic_event rt m st parsed
                   else if provider ch = GEMINI then gemini_event rt m st parsed
                   else openai_event st parsed) of
               Inl e \<Rightarrow> (st, [])
             | Inr (st', transformed) \<Rightarrow>
                 (st', if truthy transformed then [SseData (the transformed)] else [])))"

fun process_lines ::
  "js_runtime \<Rightarrow> channel_config \<Rightarrow> model_config \<Rightarrow> transformer \<Rightarrow> jstring list
     \<Rightarrow> transformer \<times> sse list" where
  "process_lines rt ch m st [] = (st, [])"
| "process_lines rt ch m st (line # lines) =
     (let (st1, out1) = process_line rt ch m st line;
          (st2, out2) = process_lines rt ch m st1 lines
      in (st2, out1 @ out2))"

text \<open>
  The transformer on decoded text: append to the buffer, split, keep the last piece as
  the new buffer (\<^verbatim>\<open>lines.pop() || ''\<close>), handle the complete lines.
\<close>

definition transform_text ::
  "js_runtime \<Rightarrow> channel_config \<Rightarrow> model_config \<Rightarrow> transformer \<Rightarrow> jstring
     \<Rightarrow> transformer \<times> sse list" where
  "transform_text rt ch m st text =
     (let lines = split_nl (buffer st @ text);
          (st', out) = process_lines rt ch m (st\<lparr>buffer := last lines\<rparr>) (butlast lines)
      in (st', out))"

definition transform ::
  "js_runtime \<Rightarrow> channel_config \<Rightarrow> model_config \<Rightarrow> transformer \<Rightarrow> 8 word list
     \<Rightarrow> transformer \<times> sse list" where
  "transform rt ch m st chunk = transform_text rt ch m st (TextDecoder_decode chunk)"

text \<open>
  Piping the chunks of the vendor body through the transformer: what is enqueued, in
  order, and the transformer at \<^verbatim>\<open>flush\<close>, whose \<^verbatim>\<open>finalUsage\<close> is its two counters.
\<close>

fun pipeThrough ::
  "js_runtime \<Rightarrow> channel_config \<Rightarrow> model_config \<Rightarrow> transformer \<Rightarrow> 8 word list list
     \<Rightarrow> transformer \<times> sse list" where
  "pipeThrough rt ch m st [] = (st, [])"
| "pipeThrough rt ch m st (chunk # chunks) =
     (let (st1, out1) = transform rt ch m st chunk;
          (st2, out2) = pipeThrough rt ch m st1 chunks
      in (st2, out1 @ out2))"


text \<open>The same pipe on text chunks, for a vendor body whose chunks decode on their own.\<close>

fun pipe_text ::
  "js_runtime \<Rightarrow> channel_config \<Rightarrow> model_config \<Rightarrow> transformer \<Rightarrow> jstring list
     \<Rightarrow> transformer \<times> sse list" where
  "pipe_text rt ch m st [] = (st, [])"
| "pipe_text rt ch m st (text # texts) =
     (let (st1, out1) = transform_text rt ch m st text;
          (st2, out2) = pipe_text rt ch m st1 texts
      in (st2, out1 @ out2))"

section \<open>The key-value store (src/lib/kv.js)\<close>

text \<open>
  The store holds JSON records under prefixed keys; the model keeps one typed map per
  prefix (\<^verbatim>\<open>user:\<close>, \<^verbatim>\<open>apikey:\<close>, \<^verbatim>\<open>model:\<close>, \<^verbatim>\<open>channel:\<close>, \<^verbatim>\<open>usage:\<close> with the user and the
  day).
\<close>

record user =
  uid :: jstring
  balance :: rat
  total_consumed :: rat
  is_blocked :: bool
  updated_at :: nat

record api_key_data =
  k_uid :: jstring
  k_enabled :: bool
  last_used :: "nat option"

record usage_totals =
  u_requests :: nat
  u_input_tokens :: rat
  u_output_tokens :: rat
  u_cost :: rat

record usage_data =
  u_totals :: usage_totals
  u_models :: "jstring \<rightharpoonup> usage_totals"

record kv_state =
  users :: "jstring \<rightharpoonup> user"
  api_keys :: "jstring \<rightharpoonup> api_key_data"
  model_store :: "jstring \<rightharpoonup> model_config"
  channel_store :: "jstring \<rightharpoonup> channel_config"
  usage_store :: "jstring \<times> jstring \<rightharpoonup> usage_data"

text \<open>
  \<^verbatim>\<open>validateApiKey\<close>: an unknown or disabled key is rejected; otherwise the time of use
  is written to the key record before the user is looked up; a missing or blocked user
  is rejected.
\<close>

definition validateApiKey ::
  "js_runtime \<Rightarrow> kv_state \<Rightarrow> jstring \<Rightarrow> (api_key_data \<times> user) option \<times> kv_state" where
  "validateApiKey rt kv k =
     (case api_keys kv k of
        None \<Rightarrow> (None, kv)
      | Some keyData \<Rightarrow>
          if \<not> k_enabled keyData then (None, kv)
          else let keyData' = keyData\<lparr>last_used := Some (Date_now rt)\<rparr>;
                   kv' = kv\<lparr>api_keys := (api_keys kv)(k \<mapsto> keyData')\<rparr>
               in (case users kv' (k_uid keyData') of
                     None \<Rightarrow> (None, kv')
                   | Some u \<Rightarrow> if is_blocked u then (None, kv') else (Some (keyData', u), kv')))"

text \<open>
  \<^verbatim>\<open>
  async updateBalance(uid, delta) {
    const user = await this.getUser(uid);
    if (!user) { throw new Error(...); }
    const newBalance = user.balance + delta;
    if (newBalance < 0) { throw new Error(...); }
    user.balance = newBalance;
    if (delta < 0) {
      user.total_consumed = (user.total_consumed || 0) + Math.abs(delta);
    }
    await this.setUser(uid, user);
    return user;
  }
  \<close>
\<close>

definition updateBalance :: "js_runtime \<Rightarrow> kv_state \<Rightarrow> jstring \<Rightarrow> rat \<Rightarrow> js_error + kv_state" where
  "updateBalance rt kv u delta =
     (case users kv u of
        None \<Rightarrow> Inl Error
      | Some usr \<Rightarrow>
          let newBalance = balance usr + delta
          in if newBalance < 0 then Inl Error
             else let usr1 = usr\<lparr>balance := newBalance\<rparr>;
                      usr2 = (if delta < 0
                              then usr1\<lparr>total_consumed := total_consumed usr1 + \<bar>delta\<bar>\<rparr>
                              else usr1)
                  in Inr (kv\<lparr>users := (users kv)(u \<mapsto> usr2\<lparr>updated_at := Date_now rt\<rparr>)\<rparr>))"

definition add_usage :: "usage_totals \<Rightarrow> rat \<Rightarrow> rat \<Rightarrow> rat \<Rightarrow> usage_totals" where
  "add_usage t i out c =
     t\<lparr>u_requests := u_requests t + 1,
       u_input_tokens := u_input_tokens t + i,
       u_output_tokens := u_output_tokens t + out,
       u_cost := u_cost t + c\<rparr>"

definition no_usage :: usage_totals where
  "no_usage = \<lparr>u_requests = 0, u_input_tokens = 0, u_output_tokens = 0, u_cost = 0\<rparr>"

text \<open>
  \<^verbatim>\<open>recordUsage\<close>: the record of the user and the day, created empty when absent, gets
  one more request, the tokens and the cost, in total and under the model.
\<close>

definition recordUsage ::
  "js_runtime \<Rightarrow> kv_state \<Rightarrow> jstring \<Rightarrow> jstring \<Rightarrow> rat \<Rightarrow> rat \<Rightarrow> rat \<Rightarrow> kv_state" where
  "recordUsage rt kv u modelId i out c =
     (let existing = (case usage_store kv (u, today rt) of
                        None \<Rightarrow> \<lparr>u_totals = no_usage, u_models = Map.empty\<rparr>
                      | Some d \<Rightarrow> d);
          per_model = (case u_models existing modelId of None \<Rightarrow> no_usage | Some t \<Rightarrow> t);
          existing' = \<lparr>u_totals = add_usage (u_totals existing) i out c,
                       u_models = (u_models existing)(modelId \<mapsto> add_usage per_model i out c)\<rparr>
      in kv\<lparr>usage_store := (usage_store kv)((u, today rt) \<mapsto> existing')\<rparr>)"

section \<open>The gateway (functions/v1/index.js)\<close>

record http_request =
  authorization :: "jstring option"
  req_body :: "chat_request option"

text \<open>\<open>waitUntil\<close> tells whether the platform put a \<^verbatim>\<open>waitUntil\<close> function into \<^verbatim>\<open>env\<close>.\<close>

record env =
  waitUntil :: bool

datatype err =
    MissingApiKey | InvalidApiKey | AccountBlocked | InvalidJson | MissingModel
  | ModelUnavailable | InsufficientBalance | UpstreamError

text \<open>
  What the handler returns: an error response with its status, a JSON response, an
  event stream (the chunks enqueued by the transformer), an exception that leaves the
  handler, or \<open>Unmodelled\<close> where the source goes on with a usage count that is no
  number.
\<close>

datatype response =
    ErrorResponse err nat
  | JsonResponse json
  | StreamResponse "sse list"
  | Uncaught js_error
  | Unmodelled

text \<open>
  A request sent to a vendor: the channel, the vendor body and the \<^verbatim>\<open>stream\<close> flag (for
  Gemini also the model of the URL). The vendor is a function from the request to the
  chunks of the response body; \<open>None\<close> is a failed fetch or a status that is not 2xx,
  for which the provider classes throw.
\<close>

datatype upstream_call =
    CallOpenAI channel_config chat_request bool
  | CallAnthropic channel_config anthropic_request bool
  | CallGemini channel_config jstring gemini_request bool

type_synonym vendor = "upstream_call \<Rightarrow> 8 word list list option"

definition extractBearerToken :: "http_request \<Rightarrow> jstring option" where
  "extractBearerToken request =
     (case authorization request of
        None \<Rightarrow> None
      | Some auth \<Rightarrow>
          if auth = [] \<or> \<not> startsWith auth (str ''Bearer '') then None else Some (drop 7 auth))"

definition authenticateRequest ::
  "js_runtime \<Rightarrow> kv_state \<Rightarrow> http_request \<Rightarrow> (response + user) \<times> kv_state" where
  "authenticateRequest rt kv request =
     (case extractBearerToken request of
        None \<Rightarrow> (Inl (ErrorResponse MissingApiKey 401), kv)
      | Some token \<Rightarrow>
          if token = [] then (Inl (ErrorResponse MissingApiKey 401), kv)
          else (case validateApiKey rt kv token of
                  (None, kv') \<Rightarrow> (Inl (ErrorResponse InvalidApiKey 401), kv')
                | (Some (keyData, u), kv') \<Rightarrow>
                    if is_blocked u then (Inl (ErrorResponse AccountBlocked 403), kv')
                    else (Inr u, kv')))"

text \<open>
  \<^verbatim>\<open>
  async function getModelConfig(kv, modelId) {
    const model = await kv.getModel(modelId);
    if (!model || !model.enabled) { return null; }
    const channel = await kv.getChannel(model.channel_id);
    if (!channel || !channel.enabled) { return null; }
    return { model, channel };
  }
  \<close>
\<close>

definition getModelConfig :: "kv_state \<Rightarrow> jstring \<Rightarrow> (model_config \<times> channel_config) option" where
  "getModelConfig kv modelId =
     (case model_store kv modelId of
        None \<Rightarrow> None
      | Some m \<Rightarrow>
          if \<not> enabled m then None
          else (case channel_store kv (channel_id m) of
                  None \<Rightarrow> None
                | Some ch \<Rightarrow> if \<not> ch_enabled ch then None else Some (m, ch)))"

text \<open>
  The settlement of both paths, inside \<^verbatim>\<open>try { ... } catch (e) { console.error(...) }\<close>:
  when \<^verbatim>\<open>updateBalance\<close> throws, \<^verbatim>\<open>recordUsage\<close> is not reached and nothing is written.
\<close>

definition settle ::
  "js_runtime \<Rightarrow> kv_state \<Rightarrow> jstring \<Rightarrow> jstring \<Rightarrow> rat \<Rightarrow> rat \<Rightarrow> rat \<Rightarrow> kv_state" where
  "settle rt kv u modelId i out c =
     (case updateBalance rt kv u (- c) of
        Inl e \<Rightarrow> kv
      | Inr kv1 \<Rightarrow> recordUsage rt kv1 u modelId i out c)"

text \<open>
  \<^verbatim>\<open>result.model = modelId\<close> in a module (strict mode): an object gets or replaces the
  property; an array gets it too, but \<^verbatim>\<open>JSON.stringify\<close> does not write it; on any other
  value the assignment raises a TypeError.
\<close>

fun set_prop :: "(jstring \<times> json) list \<Rightarrow> jstring \<Rightarrow> json \<Rightarrow> (jstring \<times> json) list" where
  "set_prop [] k v = [(k, v)]"
| "set_prop ((k', v') # kvs) k v =
     (if k' = k then (k, v) # kvs else (k', v') # set_prop kvs k v)"

definition set_model :: "json \<Rightarrow> jstring \<Rightarrow> js_error + json" where
  "set_model result modelId =
     (case result of
        JObj kvs \<Rightarrow> Inr (JObj (set_prop kvs (str ''model'') (JStr modelId)))
      | JArr xs \<Rightarrow> Inr (JArr xs)
      | _ \<Rightarrow> Inl TypeError)"

text \<open>
  The streaming branch, after the vendor has answered with \<open>chunks\<close>. The transformer's
  \<^verbatim>\<open>finalUsage\<close> is not read. The task handed to \<^verbatim>\<open>env.waitUntil?.(...)\<close> is run to its end
  here, no other request touching the store meanwhile; without \<^verbatim>\<open>waitUntil\<close> the
  optional call does not evaluate its argument, so the task is never started.
\<close>

definition stream_branch ::
  "js_runtime \<Rightarrow> env \<Rightarrow> kv_state \<Rightarrow> user \<Rightarrow> jstring \<Rightarrow> model_config \<Rightarrow> channel_config
     \<Rightarrow> nat \<Rightarrow> 8 word list list \<Rightarrow> response \<times> kv_state" where
  "stream_branch rt e kv usr modelId m ch estimatedInputTokens chunks =
     (let transformedStream = snd (pipeThrough rt ch m createStreamTransformer chunks);
          estimatedOutputTokens = 500;
          c = calculateCost m (of_nat estimatedInputTokens) estimatedOutputTokens;
          kv' = (if waitUntil e
                 then settle rt kv (uid usr) modelId (of_nat estimatedInputTokens)
                        estimatedOutputTokens c
                 else kv)
      in (StreamResponse transformedStream, kv'))"

text \<open>The non-streaming branch, after the vendor has answered with \<open>chunks\<close>.\<close>

definition json_branch ::
  "js_runtime \<Rightarrow> kv_state \<Rightarrow> user \<Rightarrow> jstring \<Rightarrow> model_config \<Rightarrow> channel_config
     \<Rightarrow> nat \<Rightarrow> 8 word list list \<Rightarrow> response \<times> kv_state" where
  "json_branch rt kv usr modelId m ch estimatedInputTokens chunks =
     (case JSON_parse rt (TextDecoder_decode (concat chunks)) of
        None \<Rightarrow> (ErrorResponse UpstreamError 502, kv)
      | Some result0 \<Rightarrow>
         (case (if provider ch = ANTHROPIC then anthropicToOpenAI rt result0
                else if provider ch = GEMINI then geminiToOpenAI rt result0
                else Inr result0) of
            Inl e \<Rightarrow> (ErrorResponse UpstreamError 502, kv)
          | Inr result1 \<Rightarrow>
             (case set_model result1 modelId of
                Inl e \<Rightarrow> (ErrorResponse UpstreamError 502, kv)
              | Inr result \<Rightarrow>
                 (case (count_or (opt_get (get result (str ''usage'')) (str ''prompt_tokens''))
                          (Count (of_nat estimatedInputTokens)),
                        count_or (opt_get (get result (str ''usage'')) (str ''completion_tokens''))
                          (Count 0)) of
                    (Count i, Count out) \<Rightarrow>
                      (JsonResponse result,
                       settle rt kv (uid usr) modelId i out (calculateCost m i out))
                  | _ \<Rightarrow> (Unmodelled, kv)))))"

text \<open>
  \<^verbatim>\<open>handleChatCompletions\<close>: the response, the store afterwards and the requests sent to
  the vendor. \<^verbatim>\<open>detectRequestFormat(body)\<close> is computed by the source and never used; it
  is left out.
\<close>

definition upstream_request ::
  "channel_config \<Rightarrow> model_config \<Rightarrow> chat_request \<Rightarrow> upstream_call" where
  "upstream_request ch m body =
     (let modelId = model body;
          upstreamModel = (case upstream_model m of
                             None \<Rightarrow> modelId
                           | Some s \<Rightarrow> if s \<noteq> [] then s else modelId);
          isStream = stream body
      in if provider ch = ANTHROPIC
         then CallAnthropic ch ((toAnthropic body)\<lparr>a_model := upstreamModel\<rparr>) isStream
         else if provider ch = GEMINI
         then CallGemini ch upstreamModel (toGemini body) isStream
         else CallOpenAI ch (body\<lparr>model := upstreamModel\<rparr>) isStream)"

text \<open>
  From \<^verbatim>\<open>createProvider(channel)\<close> on: an unsupported provider type throws outside the
  \<^verbatim>\<open>try\<close> block; a failed vendor call is answered with 502.
\<close>

definition dispatch ::
  "js_runtime \<Rightarrow> env \<Rightarrow> vendor \<Rightarrow> kv_state \<Rightarrow> user \<Rightarrow> chat_request \<Rightarrow> model_config
     \<Rightarrow> channel_config \<Rightarrow> nat \<Rightarrow> response \<times> kv_state \<times> upstream_call list" where
  "dispatch rt e fetch kv usr body m ch estimatedInputTokens =
     (case provider ch of
        OtherProvider p \<Rightarrow> (Uncaught Error, kv, [])
      | _ \<Rightarrow>
         (let call = upstream_request ch m body
          in (case fetch call of
                None \<Rightarrow> (ErrorResponse UpstreamError 502, kv, [call])
              | Some chunks \<Rightarrow>
                 (let (resp, kv') =
                        (if stream body
                         then stream_branch rt e kv usr (model body) m ch
                                estimatedInputTokens chunks
                         else json_branch rt kv usr (model body) m ch
                                estimatedInputTokens chunks)
                  in (resp, kv', [call])))))"

definition handleChatCompletions ::
  "js_runtime \<Rightarrow> env \<Rightarrow> vendor \<Rightarrow> kv_state \<Rightarrow> http_request
     \<Rightarrow> response \<times> kv_state \<times> upstream_call list" where
  "handleChatCompletions rt e fetch kv0 request =
     (case authenticateRequest rt kv0 request of
        (Inl resp, kv) \<Rightarrow> (resp, kv, [])
      | (Inr usr, kv) \<Rightarrow>
         (case req_body request of
            None \<Rightarrow> (ErrorResponse InvalidJson 400, kv, [])
          | Some body \<Rightarrow>
             (let modelId = model body
              in if modelId = [] then (ErrorResponse MissingModel 400, kv, [])
                 else (case getModelConfig kv modelId of
                         None \<Rightarrow> (ErrorResponse ModelUnavailable 404, kv, [])
                       | Some (m, ch) \<Rightarrow>
                          (let estimatedInputTokens = estimateInputTokens body;
                               estimatedCost = calculateCost m (of_nat estimatedInputTokens) 100
                           in if balance usr < estimatedCost
                              then (ErrorResponse InsufficientBalance 402, kv, [])
                              else dispatch rt e fetch kv usr body m ch estimatedInputTokens)))))"

section \<open>Sample data for concrete runs\<close>

text \<open>
  A runtime for the concrete runs below. Its \<^verbatim>\<open>JSON.parse\<close> is the table of the results
  of \<^verbatim>\<open>JSON.parse\<close> on the three event texts those runs contain: \<open>sample_json\<close>, and
  \<open>cjk_json\<close> with the content U+4E2D and with three U+FFFD (every other text is rejected,
  which no run relies on); its number strings are the decimal digits of the
  integer part, which is \<^verbatim>\<open>String(n)\<close> for a natural number below 10^21; its
  \<^verbatim>\<open>toLowerCase\<close> is the one of the ASCII letters. The clock reads 2023-11-14T22:13:20Z.
\<close>

definition sample_json :: jstring where
  \<open>sample_json =
     str ''{"model":"gpt-4o-2024-08-06","choices":[{"index":0,"delta":{"content":"Hi"}}],"usage":{"prompt_tokens":7,"completion_tokens":3}}''\<close>

definition cjk_json :: "jstring \<Rightarrow> jstring" where
  \<open>cjk_json text = str ''{"choices":[{"delta":{"content":"'' @ text @ str ''"}}]}''\<close>

definition cjk_event :: "jstring \<Rightarrow> json" where
  "cjk_event text =
     JObj [(str ''choices'', JArr [JObj [(str ''delta'', JObj [(str ''content'', JStr text)])]])]"

definition sample_event :: json where
  "sample_event =
     JObj [(str ''model'', JStr (str ''gpt-4o-2024-08-06'')),
           (str ''choices'', JArr [JObj
              [(str ''index'', JNum 0),
               (str ''delta'', JObj [(str ''content'', JStr (str ''Hi''))])]]),
           (str ''usage'', JObj
              [(str ''prompt_tokens'', JNum 7), (str ''completion_tokens'', JNum 3)])]"

definition sample_parse :: "jstring \<Rightarrow> json option" where
  "sample_parse s =
     (if s = sample_json then Some sample_event
      else if s = cjk_json [0x4E2D] then Some (cjk_event [0x4E2D])
      else if s = cjk_json [0xFFFD, 0xFFFD, 0xFFFD] then Some (cjk_event [0xFFFD, 0xFFFD, 0xFFFD])
      else None)"

definition ascii_lower :: "16 word \<Rightarrow> 16 word" where
  "ascii_lower c = (if 0x41 \<le> c \<and> c \<le> 0x5A then c + 0x20 else c)"

definition sample_runtime :: js_runtime where
  "sample_runtime =
     \<lparr>JSON_parse = sample_parse,
      Date_now = 1700000000000,
      today = str ''20231114'',
      Number_toString = (\<lambda>x. decimal (nat \<lfloor>x\<rfloor>)),
      toLowerCase = map ascii_lower\<rparr>"

text \<open>The bytes of an ASCII text, and a vendor that answers every request with the same body.\<close>

definition ascii :: "string \<Rightarrow> 8 word list" where
  "ascii s = map (\<lambda>c. of_nat (of_char c)) s"

definition vendor_replying :: "8 word list list \<Rightarrow> vendor" where
  "vendor_replying chunks call = Some chunks"

text \<open>
  A store with one user of a given balance, one key, and the model \<^verbatim>\<open>gpt-4o\<close> at prices 5 and
  15 on an OpenAI channel, sent upstream as \<^verbatim>\<open>gpt-4o-2024-08-06\<close>.
\<close>

definition sample_model :: model_config where
  "sample_model =
     \<lparr>model_id = str ''gpt-4o'', channel_id = str ''c1'',
      upstream_model = Some (str ''gpt-4o-2024-08-06''),
      input_price = Some 5, output_price = Some 15, enabled = True\<rparr>"

definition sample_channel :: channel_config where
  "sample_channel =
     \<lparr>provider = OPENAI, base_url = None, api_key = str ''sk-upstream'', version = None,
      ch_enabled = True\<rparr>"

definition sample_user :: "rat \<Rightarrow> user" where
  "sample_user bal =
     \<lparr>uid = str ''u1'', balance = bal, total_consumed = 0, is_blocked = False, updated_at = 0\<rparr>"

definition sample_store :: "rat \<Rightarrow> kv_state" where
  "sample_store bal =
     \<lparr>users = [str ''u1'' \<mapsto> sample_user bal],
      api_keys = [str ''sk-test'' \<mapsto> \<lparr>k_uid = str ''u1'', k_enabled = True, last_used = None\<rparr>],
      model_store = [str ''gpt-4o'' \<mapsto> sample_model],
      channel_store = [str ''c1'' \<mapsto> sample_channel],
      usage_store = Map.empty\<rparr>"

text \<open>The same store after \<^verbatim>\<open>validateApiKey\<close> has written the time of use of the key.\<close>

definition sample_store_used :: "rat \<Rightarrow> kv_state" where
  "sample_store_used bal =
     (sample_store bal)\<lparr>api_keys :=
       [str ''sk-test'' \<mapsto> \<lparr>k_uid = str ''u1'', k_enabled = True,
                               last_used = Some 1700000000000\<rparr>]\<rparr>"

definition sample_body :: "jstring \<Rightarrow> bool \<Rightarrow> chat_request" where
  "sample_body modelId isStream =
     \<lparr>model = modelId,
      messages = Some [\<lparr>role = str ''user'', content = CText (str ''Hello!'')\<rparr>],
      contents = None, stream = isStream, max_tokens = None, temperature = None,
      top_p = None, stop = None\<rparr>"

definition sample_request :: "jstring \<Rightarrow> bool \<Rightarrow> http_request" where
  "sample_request modelId isStream =
     \<lparr>authorization = Some (str ''Bearer sk-test''),
      req_body = Some (sample_body modelId isStream)\<rparr>"

text \<open>
  An OpenAI event stream: one event with a usage block, then the terminal marker.
  \<open>sample_text\<close> is the text of these bytes.
\<close>

definition sample_stream :: "8 word list" where
  \<open>sample_stream =
     ascii ''data: {"model":"gpt-4o-2024-08-06","choices":[{"index":0,"delta":{"content":"Hi"}}],"usage":{"prompt_tokens":7,"completion_tokens":3}}''
     @ [0x0A, 0x0A] @ ascii ''data: [DONE]'' @ [0x0A, 0x0A]\<close>

definition sample_text :: jstring where
  "sample_text =
     str ''data: '' @ sample_json @ [0x0A, 0x0A] @ str ''data: [DONE]'' @ [0x0A, 0x0A]"

text \<open>
  An OpenAI event whose content is the character U+4E2D, UTF-8 bytes E4 B8 AD, cut into
  two chunks after the first of the three bytes.
\<close>

definition cjk_chunk1 :: "8 word list" where
  \<open>cjk_chunk1 = ascii ''data: {"choices":[{"delta":{"content":"'' @ [0xE4]\<close>

definition cjk_chunk2 :: "8 word list" where
  \<open>cjk_chunk2 = [0xB8, 0xAD] @ ascii ''"}}]}'' @ [0x0A]\<close>

text \<open>
  A non-streaming Anthropic reply with a given stop reason, and a Gemini reply with a
  given finish reason.
\<close>

definition anthropic_reply :: "jstring \<Rightarrow> json" where
  "anthropic_reply reason =
     JObj [(str ''id'', JStr (str ''msg_1'')),
           (str ''content'', JArr [JObj [(str ''type'', JStr (str ''text'')),
                                         (str ''text'', JStr (str ''Hi there!''))]]),
           (str ''stop_reason'', JStr reason),
           (str ''usage'', JObj [(str ''input_tokens'', JNum 5),
                                 (str ''output_tokens'', JNum 3)])]"

definition gemini_reply :: "jstring \<Rightarrow> json" where
  "gemini_reply reason =
     JObj [(str ''candidates'', JArr [JObj
             [(str ''content'', JObj [(str ''parts'', JArr [JObj
                 [(str ''text'', JStr (str ''Hi there!''))]])]),
              (str ''finishReason'', JStr reason)]])]"

section \<open>Properties of the token estimator\<close>

lemma ceil_cost:
  "nat \<lceil>(of_nat c / (3 / 2) + of_nat d / 4 :: rat)\<rceil> = (8 * c + 3 * d + 11) div 12"
proof -
  have e: "(of_nat c / (3 / 2) + of_nat d / 4 :: rat) = of_int (int (8 * c + 3 * d)) / of_int 12"
    by (simp add: field_simps)
  have "\<lceil>(of_int (int (8 * c + 3 * d)) / of_int 12 :: rat)\<rceil> = - (- int (8 * c + 3 * d) div 12)"
    by (rule ceiling_divide_eq_div)
  also have "\<dots> = int ((8 * c + 3 * d + 11) div 12)"
    by (simp add: zdiv_int)
  finally show ?thesis unfolding e by simp
qed

lemma estimateTokens_closed:
  "estimateTokens text =
     (8 * length (filter isCJK text) + 3 * (length text - length (filter isCJK text)) + 11) div 12"
proof (cases "text = []")
  case True
  then show ?thesis by (simp add: estimateTokens_def)
next
  case False
  then have "estimateTokens text =
      nat \<lceil>(of_nat (length (filter isCJK text)) / (3 / 2)
           + of_nat (length text - length (filter isCJK text)) / 4 :: rat)\<rceil>"
    by (simp only: estimateTokens_def Let_def if_False)
  then show ?thesis by (simp only: ceil_cost)
qed

lemma estimateTokens_char_cost: "estimateTokens text = nat \<lceil>char_cost text\<rceil>"
  by (simp only: estimateTokens_closed char_cost_def ceil_cost)

lemma estimate_parts_sum:
  "estimate_parts ps tot = tot + sum_list (map estimateTokens (part_segments ps))"
  by (induction ps arbitrary: tot)
     (auto simp: part_segments_def estimateTokens_opt_def estimateTokens_def split: option.splits)

lemma estimate_messages_sum:
  "estimate_messages msgs tot
     = tot + sum_list (map estimateTokens (concat (map message_segments msgs)))"
  by (induction msgs arbitrary: tot)
     (auto simp: message_segments_def estimate_parts_sum split: content.splits)

lemma estimate_gemini_parts_aux:
  "estimate_gemini_parts ps tot
     = tot + sum_list (map estimateTokens
         (concat (map (\<lambda>p. case ptext p of None \<Rightarrow> [] | Some t \<Rightarrow> [t]) ps)))"
  by (induction ps arbitrary: tot) (auto simp: estimateTokens_def split: option.splits)

lemma estimate_gemini_parts_sum:
  "estimate_gemini_parts (case c of None \<Rightarrow> [] | Some ps \<Rightarrow> ps) tot
     = tot + sum_list (map estimateTokens (gemini_segments c))"
  by (simp add: estimate_gemini_parts_aux gemini_segments_def)

lemma estimate_contents_sum:
  "estimate_contents cs tot
     = tot + sum_list (map estimateTokens (concat (map gemini_segments cs)))"
  by (induction cs arbitrary: tot)
     (simp_all add: estimate_gemini_parts_sum)

lemma estimateInputTokens_sum:
  "estimateInputTokens body = sum_list (map estimateTokens (text_segments body))"
  by (simp add: estimateInputTokens_def text_segments_def estimate_messages_sum
        estimate_contents_sum split: option.splits)

lemma char_cost_nonneg: "0 \<le> char_cost t"
  by (simp add: char_cost_def)

lemma ceiling_sum_list_le:
  "nat \<lceil>sum_list (map char_cost ts)\<rceil> \<le> sum_list (map (\<lambda>t. nat \<lceil>char_cost t\<rceil>) ts)"
proof (induction ts)
  case Nil
  then show ?case by simp
next
  case (Cons t ts)
  have "\<lceil>char_cost t + sum_list (map char_cost ts)\<rceil>
          \<le> \<lceil>char_cost t\<rceil> + \<lceil>sum_list (map char_cost ts)\<rceil>"
    by (rule ceiling_add_le)
  moreover have "0 \<le> sum_list (map char_cost ts)"
    by (rule sum_list_nonneg) (auto simp: char_cost_nonneg)
  then have "0 \<le> \<lceil>sum_list (map char_cost ts)\<rceil>" by linarith
  moreover have "0 \<le> \<lceil>char_cost t\<rceil>"
    using char_cost_nonneg [of t] by linarith
  ultimately show ?case using Cons by simp
qed

lemma estimateTokens_fun: "estimateTokens = (\<lambda>t. nat \<lceil>char_cost t\<rceil>)"
  by (rule ext) (rule estimateTokens_char_cost)

lemma single_ceiling_le: "single_ceiling_estimate body \<le> estimateInputTokens body"
  using ceiling_sum_list_le [of "text_segments body"]
  by (simp only: single_ceiling_estimate_def estimateInputTokens_sum estimateTokens_fun)





lemma ceiling_half: "nat \<lceil>(1 / 2 :: rat)\<rceil> = 1"
proof -
  have "\<lceil>(1 / 2 :: rat)\<rceil> = 1" by (rule ceiling_unique) simp_all
  then show ?thesis by simp
qed


text \<open>
  Claim C2, as amended. The input-token estimate is the sum, over the text segments of
  the request in traversal order, of \<^verbatim>\<open>estimateTokens\<close> of each segment; each segment is
  rounded up on its own (2/3 of a token per CJK code unit, 1/4 per other code unit), so
  the total is never below the single rounding of the whole sum.
\<close>

theorem estimateInputTokens_per_segment_ceiling:
  "estimateInputTokens body = sum_list (map estimateTokens (text_segments body))
   \<and> estimateTokens text = nat \<lceil>char_cost text\<rceil>
   \<and> single_ceiling_estimate body \<le> estimateInputTokens body"
  using estimateInputTokens_sum estimateTokens_char_cost single_ceiling_le by blast

text \<open>
  Claim C2, as stated, fails: two messages "a" and "b" are estimated at 1 + 1 = 2 tokens,
  while one rounding of 1/4 + 1/4 gives 1.
\<close>

theorem estimateInputTokens_single_ceiling_counterexample:
  "estimateInputTokens
     \<lparr>model = str ''m'',
      messages = Some [\<lparr>role = str ''user'', content = CText (str ''a'')\<rparr>,
                       \<lparr>role = str ''user'', content = CText (str ''b'')\<rparr>],
      contents = None, stream = False, max_tokens = None, temperature = None,
      top_p = None, stop = None\<rparr> = 2
   \<and> single_ceiling_estimate
     \<lparr>model = str ''m'',
      messages = Some [\<lparr>role = str ''user'', content = CText (str ''a'')\<rparr>,
                       \<lparr>role = str ''user'', content = CText (str ''b'')\<rparr>],
      contents = None, stream = False, max_tokens = None, temperature = None,
      top_p = None, stop = None\<rparr> = 1"
  by (simp add: estimateInputTokens_def single_ceiling_estimate_def text_segments_def
      message_segments_def char_cost_def estimateTokens_closed isCJK_def str_def ceiling_half)




section \<open>Properties of billing\<close>




section \<open>Properties of names and objects\<close>

lemma str_inject [simp]: "str a = str b \<longleftrightarrow> a = b"
proof -
  have "inj (\<lambda>c::char. (of_nat (of_char c) :: 16 word))"
  proof (rule injI)
    fix x y :: char
    assume "(of_nat (of_char x) :: 16 word) = of_nat (of_char y)"
    then have "unat (of_nat (of_char x) :: 16 word) = unat (of_nat (of_char y) :: 16 word)"
      by simp
    moreover have "(of_char c :: nat) < 2 ^ 16" for c
    proof -
      have "(of_char c :: nat) mod 256 < 256" by simp
      then have "(of_char c :: nat) < 256" by simp
      moreover have "(256 :: nat) < 2 ^ 16" by simp
      ultimately show ?thesis by (rule less_trans)
    qed
    ultimately have "(of_char x :: nat) = of_char y"
      by (simp add: unat_of_nat)
    then show "x = y" by simp
  qed
  then show ?thesis
    unfolding str_def by simp
qed

lemma str_eq_Nil [simp]: "str s = [] \<longleftrightarrow> s = []"
  by (simp add: str_def)

lemma get_obj_Nil [simp]: "get (obj []) k = None"
  by (simp add: get_def obj_def)

lemma get_obj_Cons [simp]:
  "get (obj ((k', v) # props)) k = (if k' = k \<and> v \<noteq> None then v else get (obj props) k)"
  by (auto simp: get_def obj_def split: option.splits)

lemma obj_not_JNull [simp]: "obj props \<noteq> JNull"
  by (simp add: obj_def)

lemma opt_get_obj [simp]: "opt_get (Some (obj props)) k = get (obj props) k"
  by (simp add: opt_get_def obj_def)

lemma idx0_JArr [simp]: "idx0 (Some (JArr (x # xs))) = Some x"
  by (simp add: idx0_def)

lemma obj_choices:
  "finish_reason_of (obj [(str ''id'', a), (str ''object'', b), (str ''created'', c),
       (str ''model'', d),
       (str ''choices'', Some (JArr [obj [(str ''index'', i), (str ''message'', m),
                                          (str ''finish_reason'', f)]])),
       (str ''usage'', u)]) = f"
  by (simp add: finish_reason_of_def)


section \<open>Properties of the request adapters\<close>

lemma toAnthropic_loop_turns:
  "fst (toAnthropic_loop msgs (turns, sys))
     = turns @ map (\<lambda>m. \<lparr>role = (if role m = str ''assistant'' then str ''assistant''
                                    else str ''user''), content = content m\<rparr>)
                 (filter (\<lambda>m. role m \<noteq> str ''system'') msgs)"
  by (induction msgs arbitrary: turns sys) auto

lemma toGemini_loop_turns:
  "fst (toGemini_loop msgs (turns, sys))
     = turns @ map (\<lambda>m. \<lparr>g_role = (if role m = str ''assistant'' then str ''model''
                                    else str ''user''), g_parts = [content m]\<rparr>)
                 (filter (\<lambda>m. role m \<noteq> str ''system'') msgs)"
  by (induction msgs arbitrary: turns sys) auto

lemma a_messages_toAnthropic:
  "a_messages (toAnthropic body)
     = fst (toAnthropic_loop (case messages body of None \<Rightarrow> [] | Some ms \<Rightarrow> ms) ([], []))"
  by (simp add: toAnthropic_def split: prod.splits)

lemma g_contents_toGemini:
  "g_contents (toGemini body)
     = fst (toGemini_loop (case messages body of None \<Rightarrow> [] | Some ms \<Rightarrow> ms) ([], []))"
  by (simp add: toGemini_def split: prod.splits)


text \<open>
  Claim C10. In the Anthropic and the Gemini form of a request, the turn list is the
  list of the messages whose role is not \<^verbatim>\<open>system\<close>, in order; a turn of role
  \<^verbatim>\<open>assistant\<close> stays \<^verbatim>\<open>assistant\<close> (Anthropic) or becomes \<^verbatim>\<open>model\<close> (Gemini), and every
  other role, recognised or not, becomes \<^verbatim>\<open>user\<close>. So every turn role is \<^verbatim>\<open>user\<close> or
  \<^verbatim>\<open>assistant\<close> for Anthropic and \<^verbatim>\<open>user\<close> or \<^verbatim>\<open>model\<close> for Gemini.
\<close>

theorem vendor_turn_roles:
  "a_messages (toAnthropic body)
     = map (\<lambda>m. \<lparr>role = (if role m = str ''assistant'' then str ''assistant''
                            else str ''user''), content = content m\<rparr>)
         (filter (\<lambda>m. role m \<noteq> str ''system'')
            (case messages body of None \<Rightarrow> [] | Some ms \<Rightarrow> ms))
   \<and> (\<forall>t \<in> set (a_messages (toAnthropic body)).
         role t = str ''user'' \<or> role t = str ''assistant'')
   \<and> g_contents (toGemini body)
     = map (\<lambda>m. \<lparr>g_role = (if role m = str ''assistant'' then str ''model''
                              else str ''user''), g_parts = [content m]\<rparr>)
         (filter (\<lambda>m. role m \<noteq> str ''system'')
            (case messages body of None \<Rightarrow> [] | Some ms \<Rightarrow> ms))
   \<and> (\<forall>t \<in> set (g_contents (toGemini body)).
         g_role t = str ''user'' \<or> g_role t = str ''model'')"
  by (auto simp: a_messages_toAnthropic g_contents_toGemini toAnthropic_loop_turns
        toGemini_loop_turns)


theorem vendor_turn_roles_witness:
  "map role (a_messages (toAnthropic
      \<lparr>model = str ''m'',
       messages = Some [\<lparr>role = str ''system'', content = CText (str ''s'')\<rparr>,
                        \<lparr>role = str ''user'', content = CText (str ''u'')\<rparr>,
                        \<lparr>role = str ''assistant'', content = CText (str ''a'')\<rparr>,
                        \<lparr>role = str ''tool'', content = CText (str ''t'')\<rparr>],
       contents = None, stream = False, max_tokens = None, temperature = None,
       top_p = None, stop = None\<rparr>))
     = [str ''user'', str ''assistant'', str ''user'']
   \<and> map g_role (g_contents (toGemini
      \<lparr>model = str ''m'',
       messages = Some [\<lparr>role = str ''system'', content = CText (str ''s'')\<rparr>,
                        \<lparr>role = str ''user'', content = CText (str ''u'')\<rparr>,
                        \<lparr>role = str ''assistant'', content = CText (str ''a'')\<rparr>,
                        \<lparr>role = str ''tool'', content = CText (str ''t'')\<rparr>],
       contents = None, stream = False, max_tokens = None, temperature = None,
       top_p = None, stop = None\<rparr>))
     = [str ''user'', str ''model'', str ''user'']"
  using vendor_turn_roles [of
      "\<lparr>model = str ''m'',
       messages = Some [\<lparr>role = str ''system'', content = CText (str ''s'')\<rparr>,
                        \<lparr>role = str ''user'', content = CText (str ''u'')\<rparr>,
                        \<lparr>role = str ''assistant'', content = CText (str ''a'')\<rparr>,
                        \<lparr>role = str ''tool'', content = CText (str ''t'')\<rparr>],
       contents = None, stream = False, max_tokens = None, temperature = None,
       top_p = None, stop = None\<rparr>"]
  by simp

section \<open>Properties of the gateway\<close>

lemma validateApiKey_stores:
  "validateApiKey rt kv k = (r, kv') \<Longrightarrow>
     users kv' = users kv \<and> usage_store kv' = usage_store kv
     \<and> model_store kv' = model_store kv \<and> channel_store kv' = channel_store kv"
  by (auto simp: validateApiKey_def Let_def split: option.splits if_splits)

lemma authenticateRequest_stores:
  "authenticateRequest rt kv request = (r, kv') \<Longrightarrow>
     users kv' = users kv \<and> usage_store kv' = usage_store kv
     \<and> model_store kv' = model_store kv \<and> channel_store kv' = channel_store kv"
  by (auto simp: authenticateRequest_def split: option.splits if_splits prod.splits
      dest: validateApiKey_stores)

lemma getModelConfig_cong:
  "model_store kv' = model_store kv \<Longrightarrow> channel_store kv' = channel_store kv \<Longrightarrow>
     getModelConfig kv' modelId = getModelConfig kv modelId"
  unfolding getModelConfig_def by (auto split: option.splits)

lemma handle_authenticated:
  assumes "authenticateRequest rt kv0 request = (Inr usr, kv)"
    and "req_body request = Some body" and "model body \<noteq> []"
  shows "handleChatCompletions rt e fetch kv0 request =
     (case getModelConfig kv0 (model body) of
        None \<Rightarrow> (ErrorResponse ModelUnavailable 404, kv, [])
      | Some (m, ch) \<Rightarrow>
          if balance usr < calculateCost m (of_nat (estimateInputTokens body)) 100
          then (ErrorResponse InsufficientBalance 402, kv, [])
          else dispatch rt e fetch kv usr body m ch (estimateInputTokens body))"
proof -
  have g: "getModelConfig kv (model body) = getModelConfig kv0 (model body)"
    using authenticateRequest_stores [OF assms(1)] by (intro getModelConfig_cong) simp_all
  show ?thesis
    unfolding handleChatCompletions_def assms(1) assms(2) Let_def
    using assms(3) g by simp
qed




section \<open>Properties of the response adapters\<close>

lemma anthropicToOpenAI_finish:
  "anthropicToOpenAI rt response = Inr result \<Longrightarrow>
     finish_reason_of result = anthropic_finish_reason response"
  by (auto simp: anthropicToOpenAI_def Let_def obj_choices split: if_splits sum.splits)

lemma geminiToOpenAI_finish:
  assumes a: "geminiToOpenAI rt response = Inr result"
  shows "gemini_finish_reason rt (idx0 (get response (str ''candidates'')))
           = Inr (finish_reason_of result)"
proof -
  let ?cand = "idx0 (get response (str ''candidates''))"
  let ?join = "map_text_join rt (opt_get (opt_get ?cand (str ''content'')) (str ''parts''))"
  have n: "response \<noteq> JNull"
    using a by (auto simp: geminiToOpenAI_def)
  obtain joined where t: "?join = Inr joined"
    using a n by (cases ?join) (simp_all add: geminiToOpenAI_def Let_def)
  obtain fr where f: "gemini_finish_reason rt ?cand = Inr fr"
    using a n t by (cases "gemini_finish_reason rt ?cand") (simp_all add: geminiToOpenAI_def Let_def)
  have "finish_reason_of result = fr"
    using a n t f by (auto simp: geminiToOpenAI_def Let_def obj_choices)
  then show ?thesis using f by simp
qed

lemma anthropicToOpenAI_total:
  "response \<noteq> JNull \<Longrightarrow> map_text_join rt (get response (str ''content'')) = Inr text \<Longrightarrow>
     \<exists>result. anthropicToOpenAI rt response = Inr result"
  by (simp add: anthropicToOpenAI_def Let_def)

lemma geminiToOpenAI_total:
  "response \<noteq> JNull \<Longrightarrow>
   map_text_join rt (opt_get (opt_get (idx0 (get response (str ''candidates''))) (str ''content''))
      (str ''parts'')) = Inr text \<Longrightarrow>
   opt_get (idx0 (get response (str ''candidates''))) (str ''finishReason'') = Some (JStr r) \<Longrightarrow>
     \<exists>result. geminiToOpenAI rt response = Inr result"
  by (simp add: geminiToOpenAI_def Let_def gemini_finish_reason_def)

text \<open>
  Claim C6, as amended. In a converted Anthropic response the finish reason is \<^verbatim>\<open>stop\<close>
  when the vendor's stop reason is \<^verbatim>\<open>end_turn\<close>, and otherwise the vendor's stop reason
  as it is, not lower-cased (absent when absent); the stop reason never makes the
  conversion fail. In a converted Gemini response a finish reason that is a string is
  \<^verbatim>\<open>stop\<close> for \<^verbatim>\<open>STOP\<close> and otherwise the reason lower-cased, and a string reason never
  makes the conversion fail.
\<close>

theorem finish_reason_mapping:
  "(anthropicToOpenAI rt ra = Inr oa \<longrightarrow>
      finish_reason_of oa =
        (if get ra (str ''stop_reason'') = Some (JStr (str ''end_turn''))
         then Some (JStr (str ''stop'')) else get ra (str ''stop_reason'')))
   \<and> (ra \<noteq> JNull \<and> map_text_join rt (get ra (str ''content'')) = Inr ta \<longrightarrow>
        (\<exists>result. anthropicToOpenAI rt ra = Inr result))
   \<and> (geminiToOpenAI rt rg = Inr og
        \<and> opt_get (idx0 (get rg (str ''candidates''))) (str ''finishReason'') = Some (JStr r) \<longrightarrow>
        finish_reason_of og
          = Some (JStr (if r = str ''STOP'' then str ''stop'' else toLowerCase rt r)))
   \<and> (rg \<noteq> JNull
        \<and> map_text_join rt (opt_get (opt_get (idx0 (get rg (str ''candidates''))) (str ''content''))
             (str ''parts'')) = Inr tg
        \<and> opt_get (idx0 (get rg (str ''candidates''))) (str ''finishReason'') = Some (JStr r) \<longrightarrow>
        (\<exists>result. geminiToOpenAI rt rg = Inr result))"
proof -
  have g: "geminiToOpenAI rt rg = Inr og
        \<and> opt_get (idx0 (get rg (str ''candidates''))) (str ''finishReason'') = Some (JStr r) \<longrightarrow>
        finish_reason_of og
          = Some (JStr (if r = str ''STOP'' then str ''stop'' else toLowerCase rt r))"
    using geminiToOpenAI_finish [of rt rg og]
    by (auto simp: gemini_finish_reason_def Let_def)
  show ?thesis
    using g anthropicToOpenAI_finish [of rt ra oa] anthropicToOpenAI_total [of ra rt ta]
      geminiToOpenAI_total [of rg rt tg r]
    by (simp add: anthropic_finish_reason_def)
qed

lemma join_reply:
  "map_text_join rt (Some (JArr [JObj [(str ''type'', JStr (str ''text'')),
                                         (str ''text'', JStr (str ''Hi there!''))]]))
     = Inr (str ''Hi there!'')"
  "map_text_join rt (Some (JArr [JObj [(str ''text'', JStr (str ''Hi there!''))]]))
     = Inr (str ''Hi there!'')"
  by (simp_all add: map_text_join_def join_texts_def get_def)

lemma anthropic_reply_fields:
  "anthropic_reply r \<noteq> JNull"
  "get (anthropic_reply r) (str ''content'')
     = Some (JArr [JObj [(str ''type'', JStr (str ''text'')),
                         (str ''text'', JStr (str ''Hi there!''))]])"
  "get (anthropic_reply r) (str ''stop_reason'') = Some (JStr r)"
  by (simp_all add: anthropic_reply_def get_def)

lemma gemini_reply_fields:
  "gemini_reply r \<noteq> JNull"
  "opt_get (opt_get (idx0 (get (gemini_reply r) (str ''candidates''))) (str ''content''))
     (str ''parts'') = Some (JArr [JObj [(str ''text'', JStr (str ''Hi there!''))]])"
  "opt_get (idx0 (get (gemini_reply r) (str ''candidates''))) (str ''finishReason'')
     = Some (JStr r)"
  by (simp_all add: gemini_reply_def get_def opt_get_def idx0_def)

lemma anthropic_reply_ok:
  "anthropicToOpenAI rt (anthropic_reply r)
     = Inr (projr (anthropicToOpenAI rt (anthropic_reply r)))"
  using anthropicToOpenAI_total [of "anthropic_reply r" rt "str ''Hi there!''"]
  by (auto simp: anthropic_reply_fields join_reply)

lemma gemini_reply_ok:
  "geminiToOpenAI rt (gemini_reply r)
     = Inr (projr (geminiToOpenAI rt (gemini_reply r)))"
  using geminiToOpenAI_total [of "gemini_reply r" rt "str ''Hi there!''" r]
  by (auto simp: gemini_reply_fields join_reply)

lemma lower_MAX_TOKENS: "toLowerCase sample_runtime (str ''MAX_TOKENS'') = str ''max_tokens''"
  by (simp add: sample_runtime_def ascii_lower_def str_def)

text \<open>
  Witness for claim C6: an Anthropic reply that stops with \<^verbatim>\<open>end_turn\<close> and a Gemini
  reply that finishes with \<^verbatim>\<open>MAX_TOKENS\<close>.
\<close>

theorem finish_reason_mapping_witness:
  "finish_reason_of (projr (anthropicToOpenAI sample_runtime (anthropic_reply (str ''end_turn''))))
     = Some (JStr (str ''stop''))
   \<and> finish_reason_of (projr (geminiToOpenAI sample_runtime (gemini_reply (str ''MAX_TOKENS''))))
     = Some (JStr (str ''max_tokens''))"
  using finish_reason_mapping [of sample_runtime "anthropic_reply (str ''end_turn'')"
      "projr (anthropicToOpenAI sample_runtime (anthropic_reply (str ''end_turn'')))"
      "str ''Hi there!''" "gemini_reply (str ''MAX_TOKENS'')"
      "projr (geminiToOpenAI sample_runtime (gemini_reply (str ''MAX_TOKENS'')))"
      "str ''MAX_TOKENS''" "str ''Hi there!''"]
    anthropic_reply_ok [of sample_runtime "str ''end_turn''"]
    gemini_reply_ok [of sample_runtime "str ''MAX_TOKENS''"]
  by (simp add: anthropic_reply_fields gemini_reply_fields lower_MAX_TOKENS)

text \<open>
  Claim C6, as stated, fails for Anthropic: a stop reason \<^verbatim>\<open>MAX_TOKENS\<close> that is not in
  the table passes through as \<^verbatim>\<open>MAX_TOKENS\<close>, not as its lower-cased form.
\<close>

theorem anthropic_finish_reason_not_lowercased:
  "finish_reason_of (projr (anthropicToOpenAI sample_runtime (anthropic_reply (str ''MAX_TOKENS''))))
     = Some (JStr (str ''MAX_TOKENS''))
   \<and> toLowerCase sample_runtime (str ''MAX_TOKENS'') = str ''max_tokens''
   \<and> str ''MAX_TOKENS'' \<noteq> str ''max_tokens''"
  using anthropicToOpenAI_finish [OF anthropic_reply_ok [of sample_runtime "str ''MAX_TOKENS''"]]
  by (simp add: anthropic_finish_reason_def anthropic_reply_fields lower_MAX_TOKENS)

section \<open>Properties of the stream re-encoder\<close>

text \<open>
  On decoded text the re-encoder does not depend on where the text is cut: handling a
  text in pieces gives the same counters, the same buffer and the same enqueued chunks
  as handling it at once. So the chunks of a byte stream can only matter through the
  decoding, and they do not matter when every chunk decodes to its share of the text,
  as it does for ASCII bytes.
\<close>

lemma split_nl_not_Nil [simp]: "split_nl xs \<noteq> []"
  by (induction xs) (auto split: list.splits)

lemma split_nl_append:
  "split_nl (xs @ ys) = butlast (split_nl xs) @ split_nl (last (split_nl xs) @ ys)"
proof (induction xs)
  case Nil
  then show ?case by simp
next
  case (Cons c cs)
  obtain l ls where s: "split_nl cs = l # ls"
    by (cases "split_nl cs") simp_all
  obtain l' ls' where s': "split_nl (cs @ ys) = l' # ls'"
    by (cases "split_nl (cs @ ys)") simp_all
  show ?case
  proof (cases "ls = []")
    case True
    then show ?thesis using Cons s s' by (auto split: list.splits)
  next
    case False
    then show ?thesis using Cons s s' by (auto split: list.splits)
  qed
qed

lemma last_split_nl_no_nl: "0xA \<notin> set (last (split_nl xs))"
  by (induction xs) (auto split: list.splits)

lemma split_nl_no_nl: "0xA \<notin> set xs \<Longrightarrow> split_nl xs = [xs]"
  by (induction xs) (auto split: list.splits)

lemma anthropic_event_buffer:
  "anthropic_event rt m (st\<lparr>buffer := b\<rparr>) parsed =
     (case anthropic_event rt m st parsed of
        Inl e \<Rightarrow> Inl e | Inr (s, t) \<Rightarrow> Inr (s\<lparr>buffer := b\<rparr>, t))"
  by (simp add: anthropic_event_def Let_def)

lemma gemini_event_buffer:
  "gemini_event rt m (st\<lparr>buffer := b\<rparr>) parsed =
     (case gemini_event rt m st parsed of
        Inl e \<Rightarrow> Inl e | Inr (s, t) \<Rightarrow> Inr (s\<lparr>buffer := b\<rparr>, t))"
  by (simp add: gemini_event_def Let_def)

lemma openai_event_buffer:
  "openai_event (st\<lparr>buffer := b\<rparr>) parsed =
     (case openai_event st parsed of
        Inl e \<Rightarrow> Inl e | Inr (s, t) \<Rightarrow> Inr (s\<lparr>buffer := b\<rparr>, t))"
  by (simp add: openai_event_def Let_def)

lemma process_line_buffer:
  "process_line rt ch m (st\<lparr>buffer := b\<rparr>) line =
     (fst (process_line rt ch m st line)\<lparr>buffer := b\<rparr>, snd (process_line rt ch m st line))"
  by (simp add: process_line_def Let_def anthropic_event_buffer gemini_event_buffer
      openai_event_buffer split: option.splits sum.splits prod.splits)


lemma process_lines_Cons:
  "process_lines rt ch m st (l # ls) =
     (fst (process_lines rt ch m (fst (process_line rt ch m st l)) ls),
      snd (process_line rt ch m st l)
      @ snd (process_lines rt ch m (fst (process_line rt ch m st l)) ls))"
  by (simp split: prod.splits)

lemma process_lines_buffer:
  "process_lines rt ch m (st\<lparr>buffer := b\<rparr>) ls =
     (fst (process_lines rt ch m st ls)\<lparr>buffer := b\<rparr>, snd (process_lines rt ch m st ls))"
proof (induction ls arbitrary: st)
  case Nil
  then show ?case by simp
next
  case (Cons l ls)
  have p: "process_line rt ch m (st\<lparr>buffer := b\<rparr>) l =
     (fst (process_line rt ch m st l)\<lparr>buffer := b\<rparr>, snd (process_line rt ch m st l))"
    by (rule process_line_buffer)
  show ?case
    unfolding process_lines_Cons p fst_conv snd_conv
    unfolding Cons [of "fst (process_line rt ch m st l)"] fst_conv snd_conv
    by (rule refl)
qed

lemma process_lines_append:
  "process_lines rt ch m st (ls1 @ ls2) =
     (fst (process_lines rt ch m (fst (process_lines rt ch m st ls1)) ls2),
      snd (process_lines rt ch m st ls1)
      @ snd (process_lines rt ch m (fst (process_lines rt ch m st ls1)) ls2))"
proof (induction ls1 arbitrary: st)
  case Nil
  then show ?case by simp
next
  case (Cons l ls)
  show ?case
    unfolding append_Cons process_lines_Cons Cons [of "fst (process_line rt ch m st l)"]
    by simp
qed

lemma transform_text_eq:
  "transform_text rt ch m st text =
     (fst (process_lines rt ch m st (butlast (split_nl (buffer st @ text))))
        \<lparr>buffer := last (split_nl (buffer st @ text))\<rparr>,
      snd (process_lines rt ch m st (butlast (split_nl (buffer st @ text)))))"
proof -
  have "transform_text rt ch m st text =
      process_lines rt ch m (st\<lparr>buffer := last (split_nl (buffer st @ text))\<rparr>)
        (butlast (split_nl (buffer st @ text)))"
    by (simp add: transform_text_def Let_def)
  also have "\<dots> =
     (fst (process_lines rt ch m st (butlast (split_nl (buffer st @ text))))
        \<lparr>buffer := last (split_nl (buffer st @ text))\<rparr>,
      snd (process_lines rt ch m st (butlast (split_nl (buffer st @ text)))))"
    by (rule process_lines_buffer)
  finally show ?thesis .
qed

lemma transform_text_append:
  "transform_text rt ch m st (t1 @ t2) =
     (fst (transform_text rt ch m (fst (transform_text rt ch m st t1)) t2),
      snd (transform_text rt ch m st t1)
      @ snd (transform_text rt ch m (fst (transform_text rt ch m st t1)) t2))"
proof -
  let ?l1 = "split_nl (buffer st @ t1)"
  let ?l2 = "split_nl (last ?l1 @ t2)"
  let ?p1 = "process_lines rt ch m st (butlast ?l1)"
  let ?s1 = "fst ?p1\<lparr>buffer := last ?l1\<rparr>"
  have sp: "split_nl (buffer st @ t1 @ t2) = butlast ?l1 @ ?l2"
    using split_nl_append [of "buffer st @ t1" t2] by simp
  have la: "last (butlast ?l1 @ ?l2) = last ?l2" by simp
  have bl: "butlast (butlast ?l1 @ ?l2) = butlast ?l1 @ butlast ?l2"
    by (simp add: butlast_append)
  have t1: "transform_text rt ch m st t1 = (?s1, snd ?p1)"
    by (rule transform_text_eq)
  have b1: "buffer ?s1 = last ?l1" by simp
  have p2: "process_lines rt ch m ?s1 (butlast ?l2) =
      (fst (process_lines rt ch m (fst ?p1) (butlast ?l2))\<lparr>buffer := last ?l1\<rparr>,
       snd (process_lines rt ch m (fst ?p1) (butlast ?l2)))"
    by (rule process_lines_buffer)
  have t2: "transform_text rt ch m ?s1 t2 =
      (fst (process_lines rt ch m (fst ?p1) (butlast ?l2))\<lparr>buffer := last ?l2\<rparr>,
       snd (process_lines rt ch m (fst ?p1) (butlast ?l2)))"
    unfolding transform_text_eq [of rt ch m ?s1 t2] b1 p2 by simp
  have t12: "transform_text rt ch m st (t1 @ t2) =
      (fst (process_lines rt ch m (fst ?p1) (butlast ?l2))\<lparr>buffer := last ?l2\<rparr>,
       snd ?p1 @ snd (process_lines rt ch m (fst ?p1) (butlast ?l2)))"
    unfolding transform_text_eq [of rt ch m st "t1 @ t2"] sp la bl process_lines_append
    by simp
  show ?thesis unfolding t1 fst_conv snd_conv t2 t12 by (rule refl)
qed

lemma buffer_transform_text: "0xA \<notin> set (buffer (fst (transform_text rt ch m st text)))"
  by (simp add: transform_text_eq last_split_nl_no_nl)

lemma transform_text_Nil:
  "0xA \<notin> set (buffer st) \<Longrightarrow> transform_text rt ch m st [] = (st, [])"
  by (simp add: transform_text_eq split_nl_no_nl)

lemma pipe_text_Cons:
  "pipe_text rt ch m st (text # texts) =
     (fst (pipe_text rt ch m (fst (transform_text rt ch m st text)) texts),
      snd (transform_text rt ch m st text)
      @ snd (pipe_text rt ch m (fst (transform_text rt ch m st text)) texts))"
  by (simp split: prod.splits)

lemma pipe_text_concat:
  "0xA \<notin> set (buffer st) \<Longrightarrow>
     pipe_text rt ch m st texts = transform_text rt ch m st (concat texts)"
proof (induction texts arbitrary: st)
  case Nil
  then show ?case by (simp add: transform_text_Nil)
next
  case (Cons t ts)
  have "pipe_text rt ch m (fst (transform_text rt ch m st t)) ts
          = transform_text rt ch m (fst (transform_text rt ch m st t)) (concat ts)"
    by (rule Cons.IH) (rule buffer_transform_text)
  then show ?case
    unfolding pipe_text_Cons concat.simps transform_text_append [of rt ch m st t "concat ts"]
    by simp
qed

lemma pipeThrough_pipe_text:
  "pipeThrough rt ch m st chunks = pipe_text rt ch m st (map TextDecoder_decode chunks)"
  by (induction chunks arbitrary: st) (simp_all add: transform_def)

lemma chunking_invariant_for_text:
  "concat texts = concat texts' \<Longrightarrow>
     pipe_text rt ch m createStreamTransformer texts
       = pipe_text rt ch m createStreamTransformer texts'"
  by (simp add: pipe_text_concat createStreamTransformer_def)

lemma chunking_invariant_when_decoding_commutes:
  assumes "concat (map TextDecoder_decode chunks) = TextDecoder_decode (concat chunks)"
  shows "pipeThrough rt ch m createStreamTransformer chunks
           = pipeThrough rt ch m createStreamTransformer [concat chunks]"
  unfolding pipeThrough_pipe_text
  by (rule chunking_invariant_for_text) (simp add: assms)

lemma decode_sample_stream: "TextDecoder_decode sample_stream = sample_text"
  by (simp add: sample_stream_def sample_text_def sample_json_def ascii_def str_def
      TextDecoder_decode_def utf16_units_def)

lemma split_sample_text:
  "split_nl sample_text = [str ''data: '' @ sample_json, [], str ''data: [DONE]'', [], []]"
  by (simp add: sample_text_def sample_json_def str_def)

lemma line_empty: "process_line rt ch m st [] = (st, [])"
  by (simp add: process_line_def startsWith_def str_def)

lemma line_done: "process_line rt ch m st (str ''data: [DONE]'') = (st, [SseDone])"
  by (simp add: process_line_def startsWith_def str_def trim_def isWhiteSpace_def)

lemma line_sample:
  "process_line sample_runtime sample_channel m st (str ''data: '' @ sample_json)
   = (st\<lparr>inputTokens := Count 7, outputTokens := Count 3\<rparr>,
      [SseData sample_event])"
  by (simp add: process_line_def startsWith_def str_def trim_def isWhiteSpace_def
      sample_runtime_def sample_parse_def sample_json_def sample_event_def sample_channel_def
      openai_event_def
      get_def opt_get_def truthy_def count_or_def)

lemma pipe_sample:
  "pipeThrough sample_runtime sample_channel m createStreamTransformer [sample_stream]
   = (\<lparr>inputTokens = Count 7, outputTokens = Count 3, buffer = []\<rparr>,
      [SseData sample_event, SseDone])"
  by (simp add: transform_def transform_text_def decode_sample_stream split_sample_text
      createStreamTransformer_def line_empty line_done line_sample)

lemma utf8_decode_ascii:
  "list_all (\<lambda>b. b \<le> 0x7F) bs \<Longrightarrow> utf8_decode (0, 0, 0x80, 0xBF) bs = map unat bs"
  by (induction bs) simp_all

lemma unat_ascii_bound: "(b :: 8 word) \<le> 0x7F \<Longrightarrow> unat b < 0x10000 \<and> unat b \<noteq> 0xFEFF"
  by (simp add: word_le_nat_alt)

lemma decode_ascii:
  assumes "list_all (\<lambda>b. b \<le> 0x7F) bs"
  shows "TextDecoder_decode bs = map (\<lambda>b. of_nat (unat b)) bs"
proof -
  have u: "utf8_decode (0, 0, 0x80, 0xBF) bs = map unat bs"
    using assms by (rule utf8_decode_ascii)
  have c: "concat (map utf16_units (map unat bs)) = map (\<lambda>b. of_nat (unat b)) bs"
    using assms by (induction bs) (simp_all add: utf16_units_def unat_ascii_bound)
  have n: "(case map unat bs of [] \<Rightarrow> [] | c # rest \<Rightarrow> if c = 0xFEFF then rest else map unat bs)
             = map unat bs"
    using assms unat_ascii_bound by (cases bs) auto
  show ?thesis
    unfolding TextDecoder_decode_def u Let_def n by (rule c)
qed

lemma chunking_invariant_ascii:
  assumes "list_all (list_all (\<lambda>b. b \<le> 0x7F)) chunks"
  shows "pipeThrough rt ch m createStreamTransformer chunks
           = pipeThrough rt ch m createStreamTransformer [concat chunks]"
proof (rule chunking_invariant_when_decoding_commutes)
  have a: "list_all (\<lambda>b. b \<le> 0x7F) (concat chunks)"
    using assms by (induction chunks) simp_all
  have "concat (map TextDecoder_decode chunks) = map (\<lambda>b. of_nat (unat b)) (concat chunks)"
    using assms by (induction chunks) (simp_all add: decode_ascii)
  then show "concat (map TextDecoder_decode chunks) = TextDecoder_decode (concat chunks)"
    by (simp add: decode_ascii [OF a])
qed

lemma decode_cjk_whole:
  "TextDecoder_decode (cjk_chunk1 @ cjk_chunk2) = str ''data: '' @ cjk_json [0x4E2D] @ [0x0A]"
  by (simp add: cjk_chunk1_def cjk_chunk2_def cjk_json_def ascii_def str_def
      TextDecoder_decode_def utf16_units_def)

lemma decode_cjk_1:
  "TextDecoder_decode cjk_chunk1 @ TextDecoder_decode cjk_chunk2
     = str ''data: '' @ cjk_json [0xFFFD, 0xFFFD, 0xFFFD] @ [0x0A]"
  by (simp add: cjk_chunk1_def cjk_chunk2_def cjk_json_def ascii_def str_def
      TextDecoder_decode_def utf16_units_def)

lemma split_nl_line:
  "0xA \<notin> set xs \<Longrightarrow> split_nl (xs @ 0xA # ys) = xs # split_nl ys"
  by (induction xs) (auto split: list.splits)

lemma split_cjk:
  assumes "0xA \<notin> set t"
  shows "split_nl (str ''data: '' @ cjk_json t @ [0x0A]) = [str ''data: '' @ cjk_json t, []]"
proof -
  have "0xA \<notin> set (str ''data: '' @ cjk_json t)"
    using assms by (simp add: cjk_json_def str_def)
  then have "split_nl ((str ''data: '' @ cjk_json t) @ 0xA # [])
               = (str ''data: '' @ cjk_json t) # split_nl []"
    by (rule split_nl_line)
  then show ?thesis by simp
qed

lemma line_cjk_ok:
  "process_line sample_runtime sample_channel m st (str ''data: '' @ cjk_json [0x4E2D])
     = (st, [SseData (cjk_event [0x4E2D])])"
  by (simp add: process_line_def startsWith_def str_def trim_def isWhiteSpace_def
      sample_runtime_def sample_parse_def sample_json_def cjk_json_def cjk_event_def
      sample_channel_def openai_event_def get_def opt_get_def truthy_def)

lemma line_cjk_bad:
  "process_line sample_runtime sample_channel m st
     (str ''data: '' @ cjk_json [0xFFFD, 0xFFFD, 0xFFFD])
     = (st, [SseData (cjk_event [0xFFFD, 0xFFFD, 0xFFFD])])"
  by (simp add: process_line_def startsWith_def str_def trim_def isWhiteSpace_def
      sample_runtime_def sample_parse_def sample_json_def cjk_json_def cjk_event_def
      sample_channel_def openai_event_def get_def opt_get_def truthy_def)

text \<open>
  Claim C3 fails on the code. The event \<^verbatim>\<open>data: {"choices":[{"delta":{"content":"X"}}]}\<close>
  with X the character U+4E2D (bytes E4 B8 AD), fed as one chunk, is re-emitted with the
  content U+4E2D; fed as two chunks cut after the byte E4, it is re-emitted with the
  content U+FFFD U+FFFD U+FFFD, because each chunk is decoded by a decoder of its own.
\<close>

theorem split_inside_character_changes_chunks:
  "snd (pipeThrough sample_runtime sample_channel sample_model createStreamTransformer
          [cjk_chunk1 @ cjk_chunk2]) = [SseData (cjk_event [0x4E2D])]
   \<and> snd (pipeThrough sample_runtime sample_channel sample_model createStreamTransformer
          [cjk_chunk1, cjk_chunk2]) = [SseData (cjk_event [0xFFFD, 0xFFFD, 0xFFFD])]"
proof -
  have 1: "pipeThrough sample_runtime sample_channel sample_model createStreamTransformer
          [cjk_chunk1 @ cjk_chunk2]
        = transform_text sample_runtime sample_channel sample_model createStreamTransformer
            (str ''data: '' @ cjk_json [0x4E2D] @ [0x0A])"
    by (simp add: pipeThrough_pipe_text pipe_text_concat createStreamTransformer_def
        decode_cjk_whole del: pipe_text.simps)
  have 2: "pipeThrough sample_runtime sample_channel sample_model createStreamTransformer
          [cjk_chunk1, cjk_chunk2]
        = transform_text sample_runtime sample_channel sample_model createStreamTransformer
            (str ''data: '' @ cjk_json [0xFFFD, 0xFFFD, 0xFFFD] @ [0x0A])"
    using decode_cjk_1
    by (simp add: pipeThrough_pipe_text pipe_text_concat createStreamTransformer_def
        del: pipe_text.simps)
  show ?thesis
    unfolding 1 2
    by (simp add: transform_text_eq createStreamTransformer_def split_cjk line_cjk_ok line_cjk_bad)
qed

section \<open>Properties of the gateway: admission, dispatch and settlement\<close>

lemma dispatch_stream:
  assumes "stream body"
    and "provider ch = OPENAI \<or> provider ch = ANTHROPIC \<or> provider ch = GEMINI"
    and "fetch (upstream_request ch m body) = Some chunks"
  shows "dispatch rt e fetch kv usr body m ch est =
      (StreamResponse (snd (pipeThrough rt ch m createStreamTransformer chunks)),
       (if waitUntil e
        then settle rt kv (uid usr) (model body) (of_nat est) 500
               (calculateCost m (of_nat est) 500)
        else kv),
       [upstream_request ch m body])"
  using assms by (auto simp: dispatch_def stream_branch_def Let_def)



lemma handle_unauthenticated:
  assumes "authenticateRequest rt kv0 request = (Inl resp, kv)"
  shows "handleChatCompletions rt e fetch kv0 request = (resp, kv, [])"
  using assms by (simp add: handleChatCompletions_def)

lemma getModelConfig_None_iff:
  "getModelConfig kv modelId = None \<longleftrightarrow>
     (case model_store kv modelId of
        None \<Rightarrow> True
      | Some m \<Rightarrow> \<not> enabled m \<or> (case channel_store kv (channel_id m) of
                                       None \<Rightarrow> True | Some ch \<Rightarrow> \<not> ch_enabled ch))"
  by (simp add: getModelConfig_def split: option.splits)

lemma eval_auth:
  "authenticateRequest sample_runtime (sample_store bal) (sample_request mid b)
     = (Inr (sample_user bal), sample_store_used bal)"
  by (simp add: authenticateRequest_def extractBearerToken_def sample_request_def
      startsWith_def validateApiKey_def sample_store_def sample_runtime_def sample_user_def
      sample_store_used_def str_def Let_def)

lemma eval_request:
  "req_body (sample_request mid b) = Some (sample_body mid b)"
  "model (sample_body mid b) = mid"
  "stream (sample_body mid b) = b"
  by (simp_all add: sample_request_def sample_body_def)

lemma eval_user:
  "uid (sample_user bal) = str ''u1''"
  "balance (sample_user bal) = bal"
  "users (sample_store bal) (str ''u1'') = Some (sample_user bal)"
  "users (sample_store_used bal) = users (sample_store bal)"
  "usage_store (sample_store bal) k = None"
  by (simp_all add: sample_user_def sample_store_def sample_store_used_def)

lemma eval_config:
  "getModelConfig (sample_store bal) (str ''gpt-4o'') = Some (sample_model, sample_channel)"
  "model_store (sample_store bal) (str ''nope'') = None"
  "provider sample_channel = OPENAI"
  by (simp_all add: getModelConfig_def sample_store_def sample_model_def sample_channel_def)

lemma eval_estimate: "estimateInputTokens (sample_body mid b) = 2"
  by (simp add: estimateInputTokens_def sample_body_def estimateTokens_closed isCJK_def str_def)

lemma eval_cost:
  "calculateCost sample_model 2 100 = 151 / 100"
  "calculateCost sample_model 2 500 = 751 / 100"
  by (simp_all add: calculateCost_def sample_model_def or_zero_def)

lemma eval_upstream:
  "upstream_request sample_channel sample_model (sample_body (str ''gpt-4o'') b)
     = CallOpenAI sample_channel (sample_body (str ''gpt-4o-2024-08-06'') b) b"
  by (simp add: upstream_request_def sample_channel_def sample_model_def sample_body_def Let_def)

lemma eval_handle_stream:
  "handleChatCompletions sample_runtime \<lparr>waitUntil = True\<rparr> (vendor_replying chunks)
     (sample_store 10) (sample_request (str ''gpt-4o'') True)
   = (StreamResponse
        (snd (pipeThrough sample_runtime sample_channel sample_model createStreamTransformer
                chunks)),
      settle sample_runtime (sample_store_used 10) (str ''u1'') (str ''gpt-4o'') 2 500 (751 / 100),
      [CallOpenAI sample_channel (sample_body (str ''gpt-4o-2024-08-06'') True) True])"
  by (simp add: handle_authenticated [OF eval_auth eval_request(1)] eval_request eval_user
      eval_config eval_estimate eval_cost eval_upstream dispatch_stream vendor_replying_def)


text \<open>
  Claim C5. A request whose body names a model that is unknown or disabled, or whose
  channel is unknown or disabled, sends nothing to a vendor and leaves every user record
  (so every balance) and the usage ledger as they were; when the request is
  authenticated, the response is ModelUnavailable (status 404).
\<close>

theorem unavailable_model_no_dispatch_no_mutation:
  assumes "req_body request = Some body" and "model body \<noteq> []"
    and "case model_store kv0 (model body) of
           None \<Rightarrow> True
         | Some m \<Rightarrow> \<not> enabled m \<or> (case channel_store kv0 (channel_id m) of
                                          None \<Rightarrow> True | Some ch \<Rightarrow> \<not> ch_enabled ch)"
  shows "snd (snd (handleChatCompletions rt e fetch kv0 request)) = []
     \<and> users (fst (snd (handleChatCompletions rt e fetch kv0 request))) = users kv0
     \<and> usage_store (fst (snd (handleChatCompletions rt e fetch kv0 request))) = usage_store kv0
     \<and> (fst (authenticateRequest rt kv0 request) = Inr usr \<longrightarrow>
          fst (handleChatCompletions rt e fetch kv0 request) = ErrorResponse ModelUnavailable 404)"
proof -
  obtain r kv where a: "authenticateRequest rt kv0 request = (r, kv)"
    by (cases "authenticateRequest rt kv0 request")
  have s: "users kv = users kv0" "usage_store kv = usage_store kv0"
    using authenticateRequest_stores [OF a] by simp_all
  have n: "getModelConfig kv0 (model body) = None"
    using assms(3) by (simp add: getModelConfig_None_iff)
  show ?thesis
  proof (cases r)
    case (Inl resp)
    then show ?thesis using a s by (simp add: handle_unauthenticated)
  next
    case (Inr u)
    then have "handleChatCompletions rt e fetch kv0 request
                 = (ErrorResponse ModelUnavailable 404, kv, [])"
      using a assms(1,2) n by (simp add: handle_authenticated)
    then show ?thesis using s by simp
  qed
qed

text \<open>Witness for claim C5: an authenticated request for the unknown model \<^verbatim>\<open>nope\<close>.\<close>

theorem unavailable_model_no_dispatch_no_mutation_witness:
  "fst (handleChatCompletions sample_runtime \<lparr>waitUntil = True\<rparr> (vendor_replying [])
          (sample_store 10) (sample_request (str ''nope'') False))
     = ErrorResponse ModelUnavailable 404
   \<and> snd (snd (handleChatCompletions sample_runtime \<lparr>waitUntil = True\<rparr> (vendor_replying [])
          (sample_store 10) (sample_request (str ''nope'') False))) = []
   \<and> users (fst (snd (handleChatCompletions sample_runtime \<lparr>waitUntil = True\<rparr>
          (vendor_replying []) (sample_store 10) (sample_request (str ''nope'') False))))
       = users (sample_store 10)"
  using unavailable_model_no_dispatch_no_mutation [OF eval_request(1), of "str ''nope''" False "sample_store 10" sample_runtime
      "\<lparr>waitUntil = True\<rparr>" "vendor_replying []" "sample_user 10"]
  by (simp add: eval_request eval_config eval_auth)






text \<open>
  Where the model property of what the client receives is the requested identifier: in
  a non-streaming response that is an object it is the \<^verbatim>\<open>modelId\<close> of the request; in
  the chunks built for Gemini events, and for Anthropic events other than
  \<^verbatim>\<open>message_delta\<close>, it is the \<^verbatim>\<open>model_id\<close> of the stored model, which \<^verbatim>\<open>setModel\<close> makes
  the key it is stored under.
\<close>

lemma map_of_set_prop: "map_of (set_prop kvs k v) k = Some v"
  by (induction kvs) auto

lemma set_model_object:
  "set_model result modelId = Inr (JObj kvs) \<Longrightarrow> map_of kvs (str ''model'') = Some (JStr modelId)"
  by (auto simp: set_model_def map_of_set_prop split: json.splits)

lemma json_branch_response:
  assumes "fst (json_branch rt kv usr modelId m ch est chunks) = JsonResponse j"
  shows "\<exists>result1. set_model result1 modelId = Inr j"
proof -
  obtain r0 where p: "JSON_parse rt (TextDecoder_decode (concat chunks)) = Some r0"
    using assms by (cases "JSON_parse rt (TextDecoder_decode (concat chunks))")
      (simp_all add: json_branch_def)
  let ?conv = "if provider ch = ANTHROPIC then anthropicToOpenAI rt r0
               else if provider ch = GEMINI then geminiToOpenAI rt r0 else Inr r0"
  obtain r1 where c: "?conv = Inr r1"
    using assms p by (cases ?conv) (simp_all add: json_branch_def)
  obtain r where s: "set_model r1 modelId = Inr r"
    using assms p c by (cases "set_model r1 modelId") (simp_all add: json_branch_def)
  have "j = r"
    using assms p c s by (simp add: json_branch_def split: prod.splits count.splits)
  then show ?thesis using s by blast
qed

lemma json_response_model_is_requested:
  assumes "fst (json_branch rt kv usr modelId m ch est chunks) = JsonResponse (JObj kvs)"
  shows "get (JObj kvs) (str ''model'') = Some (JStr modelId)"
  using json_branch_response [OF assms] set_model_object by (auto simp: get_def)


lemma gemini_chunk_model:
  assumes "gemini_event rt m st parsed = Inr (st', Some chunk)"
  shows "get chunk (str ''model'') = Some (JStr (model_id m))"
  using assms by (auto simp: gemini_event_def Let_def split: if_splits)

lemma anthropic_chunk_model:
  assumes "anthropic_event rt m st parsed = Inr (st', Some chunk)"
    and "get parsed (str ''type'') \<noteq> Some (JStr (str ''message_delta''))"
  shows "get chunk (str ''model'') = Some (JStr (model_id m))"
  using assms by (auto simp: anthropic_event_def Let_def split: if_splits)

text \<open>
  Claim C9 fails on the code. A streaming request for \<^verbatim>\<open>gpt-4o\<close> on an OpenAI channel
  whose model is sent upstream as \<^verbatim>\<open>gpt-4o-2024-08-06\<close>: the vendor's chunk is passed
  through as it is, and the chunk the client receives carries the model
  \<^verbatim>\<open>gpt-4o-2024-08-06\<close>, not the requested one.
\<close>

theorem stream_passthrough_keeps_upstream_model:
  "fst (handleChatCompletions sample_runtime \<lparr>waitUntil = True\<rparr>
          (vendor_replying [sample_stream]) (sample_store 10)
          (sample_request (str ''gpt-4o'') True))
     = StreamResponse [SseData sample_event, SseDone]
   \<and> get sample_event (str ''model'') = Some (JStr (str ''gpt-4o-2024-08-06''))
   \<and> str ''gpt-4o-2024-08-06'' \<noteq> model (sample_body (str ''gpt-4o'') True)"
  by (simp add: eval_handle_stream pipe_sample eval_request sample_event_def get_def
      del: pipeThrough.simps)

text \<open>
  The chunk that the re-encoder builds for an Anthropic \<^verbatim>\<open>message_delta\<close> event has no
  model property at all.
\<close>

lemma anthropic_message_delta_has_no_model:
  "anthropic_event rt m st (JObj [(str ''type'', JStr (str ''message_delta''))])
     = Inr (st, Some (obj
         [(str ''object'', Some (JStr (str ''chat.completion.chunk''))),
          (str ''choices'', Some (JArr [obj
             [(str ''index'', Some (JNum 0)),
              (str ''delta'', Some (obj [])),
              (str ''finish_reason'', Some JNull)]]))]))"
  by (simp add: anthropic_event_def get_def opt_get_def truthy_def Let_def)

end
